theory Spec2Isabelle
  imports Complex_Main
begin

section \<open>Destination shapes: Go types and values as the binder sees them through reflection\<close>

text \<open>
  The binder of package echo (\<^verbatim>\<open>DefaultBinder\<close>) inspects its destination with the
  reflect package. A destination is described here by a type (a finite tree, so the
  self-referential types that the binder does not support are left out) and by a value of
  that type. Values do not carry their type: every function that needs it receives the
  type next to the value, as the code receives a \<^verbatim>\<open>reflect.Value\<close>.
\<close>

datatype kind =
    Bool | Int' | Int8 | Int16 | Int32 | Int64
  | Uint | Uint8 | Uint16 | Uint32 | Uint64
  | Float32 | Float64 | String
  | Interface | Map | Ptr | Slice | Struct
  | OtherKind  \<comment> \<open>Array, Chan, Func, Complex64, Complex128, Uintptr, UnsafePointer\<close>
  \<comment> \<open>\<open>Int'\<close> is \<^verbatim>\<open>reflect.Int\<close>: the plain name is taken by set intersection\<close>

text \<open>
  What the binder can ask of a type besides its shape: its name (empty for a type literal)
  and which of the three decoding interfaces a pointer to it implements:
  \<^verbatim>\<open>bindMultipleUnmarshaler\<close>, \<^verbatim>\<open>BindUnmarshaler\<close>, \<^verbatim>\<open>encoding.TextUnmarshaler\<close>.
\<close>

datatype tinfo = TInfo (tname: string) (multi: bool) (bindU: bool) (textU: bool)

definition plain :: "string \<Rightarrow> tinfo" where
  "plain n = TInfo n False False False"

text \<open>
  \<open>TBasic\<close> is used with the kinds that have no component type (the numeric kinds,
  \<open>Bool\<close>, \<open>String\<close>, \<open>Interface\<close>, \<open>OtherKind\<close>). A struct field has a name,
  a type, the \<^verbatim>\<open>Anonymous\<close> flag, whether it is exported, and its tag as an association
  list from tag key to external name.
\<close>

datatype gtype =
    TBasic tinfo kind
  | TPtr gtype
  | TSlice tinfo gtype
  | TMap tinfo gtype gtype
  | TStruct tinfo "sfield list"
and sfield =
    Field (fname: string) (ftype: gtype) (anonymous: bool) (exported: bool)
          (tags: "(string \<times> string) list")

datatype float = Finite real | PosInf | NegInf | NaN

datatype gval =
    VBool bool
  | VInt int
  | VUint nat
  | VFloat float
  | VString string
  | VIface "gval option"                        \<comment> \<open>nil, or the value held\<close>
  | VPtr "gval option"                          \<comment> \<open>nil, or the pointee\<close>
  | VSlice "gval list"                          \<comment> \<open>a nil slice is the empty list\<close>
  | VMap "(string \<times> gval) list option"          \<comment> \<open>nil, or the entries of a string-keyed map\<close>
  | VStruct "gval list"                         \<comment> \<open>the field values in declaration order\<close>
  | VOther

fun Kind :: "gtype \<Rightarrow> kind" where
  "Kind (TBasic ti k) = k"
| "Kind (TPtr t) = Ptr"
| "Kind (TSlice ti t) = Slice"
| "Kind (TMap ti k t) = Map"
| "Kind (TStruct ti fs) = Struct"

fun info :: "gtype \<Rightarrow> tinfo" where
  "info (TBasic ti k) = ti"
| "info (TPtr t) = plain []"   \<comment> \<open>a pointer to a pointer has no methods\<close>
| "info (TSlice ti t) = ti"
| "info (TMap ti k t) = ti"
| "info (TStruct ti fs) = ti"

text \<open>The zero value of a type (\<^verbatim>\<open>reflect.New\<close>, \<^verbatim>\<open>reflect.MakeSlice\<close> elements).\<close>

fun zero :: "gtype \<Rightarrow> gval"
and zeros :: "sfield list \<Rightarrow> gval list" where
  "zero (TBasic ti k) =
     (if k = Bool then VBool False
      else if k \<in> {Int', Int8, Int16, Int32, Int64} then VInt 0
      else if k \<in> {Uint, Uint8, Uint16, Uint32, Uint64} then VUint 0
      else if k \<in> {Float32, Float64} then VFloat (Finite 0)
      else if k = String then VString []
      else if k = Interface then VIface None
      else VOther)"
| "zero (TPtr t) = VPtr None"
| "zero (TSlice ti t) = VSlice []"
| "zero (TMap ti k t) = VMap None"
| "zero (TStruct ti fs) = VStruct (zeros fs)"
| "zeros [] = []"
| "zeros (Field n t a e tg # fs) = zero t # zeros fs"

section \<open>Errors and outcomes\<close>

text \<open>
  The errors the binder creates or passes on. \<open>HTTPError\<close> is echo's \<^verbatim>\<open>*HTTPError\<close>: a
  status code, which text the message is built from, and the internal error it wraps.
  A function of the binder returns \<^verbatim>\<open>nil\<close> (\<open>OK\<close>), returns an error, or panics inside
  reflect or on an index out of range; the destination as mutated so far is kept next to
  each of the three, since the code mutates in place and does not roll back.
\<close>

datatype numerr = ErrSyntax | ErrRange

datatype message = ErrorText | UnsupportedTypeText | SyntaxText | StatusText

datatype error =
    AnonymousStructTag          \<comment> \<open>"query/param/form tags are not allowed with anonymous struct field"\<close>
  | BindingElementMustBeStruct  \<comment> \<open>"binding element must be a struct"\<close>
  | UnknownType                 \<comment> \<open>"unknown type"\<close>
  | FileHeaderNotSupported      \<comment> \<open>"binding to multipart.FileHeader struct is not supported, use pointer to struct"\<close>
  | NumError numerr             \<comment> \<open>\<^verbatim>\<open>*strconv.NumError\<close>\<close>
  | XMLUnsupportedTypeError
  | XMLSyntaxError
  | ExternalError string        \<comment> \<open>any other error of a hook, a parser or a deserializer\<close>
  | HTTPError nat message "error option"

datatype outcome = OK | Err error | Panic

datatype destination =
    NilDestination              \<comment> \<open>the nil interface\<close>
  | NonPointer                  \<comment> \<open>a value that is not a pointer\<close>
  | Pointer gtype "gval option" \<comment> \<open>a pointer to the type, nil or with its pointee\<close>

type_synonym Values = "(string \<times> string list) list"

type_synonym fileHeaders = "(string \<times> gval list) list"

text \<open>
  A \<^verbatim>\<open>map[string][]string\<close> is an association list (\<open>Values\<close>): \<^verbatim>\<open>data[k]\<close> is
  \<open>map_of data k\<close>, and the order of the list is the order in which \<^verbatim>\<open>range\<close> yields the
  keys, which Go leaves unspecified. In \<open>fileHeaders\<close> each \<^verbatim>\<open>*multipart.FileHeader\<close> is
  given by the struct value it points to.
\<close>

section \<open>The request context and the injected collaborators\<close>

text \<open>
  Of the request and of echo's \<^verbatim>\<open>Context\<close> (context.go is not among the sources) the
  binder reads what the record holds: \<^verbatim>\<open>c.ParamNames()\<close>, \<^verbatim>\<open>c.ParamValues()\<close>,
  \<^verbatim>\<open>c.QueryParams()\<close>, \<^verbatim>\<open>c.FormParams()\<close>, \<^verbatim>\<open>c.MultipartForm()\<close> (each of the last two
  an error or the parsed maps), and of \<^verbatim>\<open>c.Request()\<close> the method, the declared content
  length, the header and the body.
\<close>

record Context =
  ParamNames :: "string list"
  ParamValues :: "string list"
  QueryParams :: Values
  FormParams :: "error + Values"
  MultipartForm :: "error + Values \<times> fileHeaders"
  Method :: string
  ContentLength :: int
  Header :: Values
  Body :: string

text \<open>
  What the binder calls but does not define: \<^verbatim>\<open>strconv.ParseFloat\<close> (floating point is
  not modelled), the Unicode part of \<^verbatim>\<open>strings.EqualFold\<close> and \<^verbatim>\<open>strings.TrimSpace\<close>,
  the decoding methods of the destination's own types (each receives the type, the input
  and the current value, and returns the value as it left it), the JSON serializer of the
  echo instance and the decoder of encoding/xml. The last seven fields are the constants of
  echo.go that \<^verbatim>\<open>BindBody\<close> names; echo.go is not among the sources either.
\<close>

record env =
  ParseFloat :: "string \<Rightarrow> nat \<Rightarrow> float \<times> numerr option"
  unicodeEqualFold :: "string \<Rightarrow> string \<Rightarrow> bool"
  unicodeTrimSpace :: "string \<Rightarrow> string"
  UnmarshalParams :: "gtype \<Rightarrow> string list \<Rightarrow> gval \<Rightarrow> gval \<times> outcome"
  UnmarshalParam :: "gtype \<Rightarrow> string \<Rightarrow> gval \<Rightarrow> gval \<times> outcome"
  UnmarshalText :: "gtype \<Rightarrow> string \<Rightarrow> gval \<Rightarrow> gval \<times> outcome"
  Deserialize :: "Context \<Rightarrow> destination \<Rightarrow> destination \<times> outcome"
  XMLDecode :: "string \<Rightarrow> destination \<Rightarrow> destination \<times> outcome"
  HeaderContentType :: string
  MIMEApplicationJSON :: string
  MIMEApplicationXML :: string
  MIMETextXML :: string
  MIMEApplicationForm :: string
  MIMEMultipartForm :: string
  ErrUnsupportedMediaType :: error

section \<open>The standard library functions the binder calls\<close>

subsection \<open>strconv, base 10\<close>

definition IntSize :: nat where
  \<comment> \<open>\<^verbatim>\<open>strconv.IntSize\<close>, the width of \<^verbatim>\<open>int\<close> and \<^verbatim>\<open>uint\<close>, on a 64-bit platform\<close>
  "IntSize = 64"

definition digit :: "char \<Rightarrow> nat option" where
  "digit c = (let n = (of_char c :: nat) in if 48 \<le> n \<and> n \<le> 57 then Some (n - 48) else None)"

text \<open>
  The loop of \<^verbatim>\<open>strconv.ParseUint\<close> for base 10: a byte that is not a decimal digit is a
  syntax error, an overflow of 64 bits or of \<open>maxVal\<close> is a range error, whichever comes
  first from the left. On a range error the result is \<open>maxVal\<close>.
\<close>

fun parseUintLoop :: "nat \<Rightarrow> nat \<Rightarrow> string \<Rightarrow> nat \<times> numerr option" where
  "parseUintLoop maxVal n [] = (n, None)"
| "parseUintLoop maxVal n (c # cs) =
     (case digit c of
        None \<Rightarrow> (0, Some ErrSyntax)
      | Some d \<Rightarrow>
          if n \<ge> (2 ^ 64 - 1) div 10 + 1 then (maxVal, Some ErrRange)
          else if n * 10 + d \<ge> 2 ^ 64 \<or> n * 10 + d > maxVal then (maxVal, Some ErrRange)
          else parseUintLoop maxVal (n * 10 + d) cs)"

definition ParseUint :: "string \<Rightarrow> nat \<Rightarrow> nat \<times> numerr option" where
  "ParseUint s bitSize =
     (if s = [] then (0, Some ErrSyntax)
      else parseUintLoop (2 ^ (if bitSize = 0 then IntSize else bitSize) - 1) 0 s)"

definition ParseInt :: "string \<Rightarrow> nat \<Rightarrow> int \<times> numerr option" where
  "ParseInt s bitSize =
     (if s = [] then (0, Some ErrSyntax)
      else
        let neg = (hd s = CHR ''-'');
            s1 = (if hd s = CHR ''+'' \<or> hd s = CHR ''-'' then tl s else s);
            (un, err) = ParseUint s1 bitSize
        in if err = Some ErrSyntax then (0, err)
           else
             let cutoff = (2::nat) ^ ((if bitSize = 0 then IntSize else bitSize) - 1)
             in if \<not> neg \<and> un \<ge> cutoff then (int cutoff - 1, Some ErrRange)
                else if neg \<and> un > cutoff then (- int cutoff, Some ErrRange)
                else (if neg then - int un else int un, None))"

definition ParseBool :: "string \<Rightarrow> bool \<times> numerr option" where
  "ParseBool str =
     (if str \<in> set [''1'', ''t'', ''T'', ''TRUE'', ''true'', ''True''] then (True, None)
      else if str \<in> set [''0'', ''f'', ''F'', ''FALSE'', ''false'', ''False''] then (False, None)
      else (False, Some ErrSyntax))"

subsection \<open>strings\<close>

text \<open>
  On ASCII strings \<^verbatim>\<open>strings.EqualFold\<close> compares letters without their case and
  \<^verbatim>\<open>strings.TrimSpace\<close> strips blanks, tabs and line breaks at both ends; beyond ASCII
  both follow the Unicode tables, which are a parameter here.
\<close>

definition isASCII :: "string \<Rightarrow> bool" where
  "isASCII s = list_all (\<lambda>c. (of_char c :: nat) < 128) s"

definition lower :: "char \<Rightarrow> char" where
  \<comment> \<open>an upper-case letter plus \<^verbatim>\<open>'a' - 'A'\<close>: the bit of weight 32 is set\<close>
  "lower c =
     (let n = (of_char c :: nat) in
      if 65 \<le> n \<and> n \<le> 90 then
        (case c of Char b0 b1 b2 b3 b4 b5 b6 b7 \<Rightarrow> Char b0 b1 b2 b3 b4 True b6 b7)
      else c)"

definition EqualFold :: "env \<Rightarrow> string \<Rightarrow> string \<Rightarrow> bool" where
  "EqualFold env s t =
     (if isASCII s \<and> isASCII t then map lower s = map lower t else unicodeEqualFold env s t)"

definition isSpace :: "char \<Rightarrow> bool" where
  "isSpace c = ((of_char c :: nat) \<in> {9, 10, 11, 12, 13, 32})"

definition TrimSpace :: "env \<Rightarrow> string \<Rightarrow> string" where
  "TrimSpace env s =
     (if isASCII s then rev (dropWhile isSpace (rev (dropWhile isSpace s)))
      else unicodeTrimSpace env s)"

definition Cut :: "string \<Rightarrow> char \<Rightarrow> string" where
  \<comment> \<open>the first result of \<^verbatim>\<open>strings.Cut\<close>: the text before the separator, all of it when there is none\<close>
  "Cut s sep = takeWhile (\<lambda>c. c \<noteq> sep) s"

text \<open>\<^verbatim>\<open>StructTag.Get\<close>: the value under the key, the empty string when there is none.\<close>

definition Get :: "(string \<times> string) list \<Rightarrow> string \<Rightarrow> string" where
  "Get tg key = (case map_of tg key of None \<Rightarrow> [] | Some v \<Rightarrow> v)"

section \<open>The type coercer\<close>

text \<open>
  \<^verbatim>\<open>setIntField\<close>, \<^verbatim>\<open>setUintField\<close>, \<^verbatim>\<open>setBoolField\<close>, \<^verbatim>\<open>setFloatField\<close>: an empty
  input is replaced by the text of zero, the input is parsed, and the field is set only
  when the parse succeeded. Each returns the field and the error.
\<close>

definition setIntField :: "string \<Rightarrow> nat \<Rightarrow> gval \<Rightarrow> gval \<times> outcome" where
  "setIntField val bitSize field =
     (let val = (if val = [] then ''0'' else val) in
      case ParseInt val bitSize of
        (intVal, None) \<Rightarrow> (VInt intVal, OK)
      | (intVal, Some e) \<Rightarrow> (field, Err (NumError e)))"

definition setUintField :: "string \<Rightarrow> nat \<Rightarrow> gval \<Rightarrow> gval \<times> outcome" where
  "setUintField val bitSize field =
     (let val = (if val = [] then ''0'' else val) in
      case ParseUint val bitSize of
        (uintVal, None) \<Rightarrow> (VUint uintVal, OK)
      | (uintVal, Some e) \<Rightarrow> (field, Err (NumError e)))"

definition setBoolField :: "string \<Rightarrow> gval \<Rightarrow> gval \<times> outcome" where
  "setBoolField val field =
     (let val = (if val = [] then ''false'' else val) in
      case ParseBool val of
        (boolVal, None) \<Rightarrow> (VBool boolVal, OK)
      | (boolVal, Some e) \<Rightarrow> (field, Err (NumError e)))"

definition setFloatField :: "env \<Rightarrow> string \<Rightarrow> nat \<Rightarrow> gval \<Rightarrow> gval \<times> outcome" where
  "setFloatField env val bitSize field =
     (let val = (if val = [] then ''0.0'' else val) in
      case ParseFloat env val bitSize of
        (floatVal, None) \<Rightarrow> (VFloat floatVal, OK)
      | (floatVal, Some e) \<Rightarrow> (field, Err (NumError e)))"

text \<open>
  \<^verbatim>\<open>unmarshalInputsToField\<close> and \<^verbatim>\<open>unmarshalInputToField\<close>. When \<open>valueKind\<close> is
  \<open>Ptr\<close> a nil field is first set to a new zero pointee, and stays so whatever follows;
  \<^verbatim>\<open>IsNil\<close>, \<^verbatim>\<open>Set\<close> or \<^verbatim>\<open>Elem\<close> panic when the field is not a pointer. The result is
  the field and \<open>None\<close> for \<^verbatim>\<open>(false, nil)\<close>, \<open>Some r\<close> for \<^verbatim>\<open>(true, r)\<close> and for a
  panic. \<open>typeSwitchMultiple\<close> and \<open>typeSwitch\<close> are the interface tests on the pointer to
  the field that end the two functions.
\<close>

definition typeSwitchMultiple :: "env \<Rightarrow> string list \<Rightarrow> gtype \<Rightarrow> gval \<Rightarrow> gval \<times> outcome option" where
  "typeSwitchMultiple env vals t field =
     (if multi (info t) then (case UnmarshalParams env t vals field of (y, r) \<Rightarrow> (y, Some r))
      else (field, None))"

definition unmarshalInputsToField ::
    "env \<Rightarrow> kind \<Rightarrow> string list \<Rightarrow> gtype \<Rightarrow> gval \<Rightarrow> gval \<times> outcome option" where
  "unmarshalInputsToField env valueKind vals t field =
     (if valueKind = Ptr then
        (case t of
           TPtr t' \<Rightarrow>
             (case field of
                VPtr p \<Rightarrow>
                  (case typeSwitchMultiple env vals t' (case p of None \<Rightarrow> zero t' | Some y \<Rightarrow> y) of
                     (y, r) \<Rightarrow> (VPtr (Some y), r))
              | _ \<Rightarrow> (field, Some Panic))
         | _ \<Rightarrow> (field, Some Panic))
      else typeSwitchMultiple env vals t field)"

definition typeSwitch :: "env \<Rightarrow> string \<Rightarrow> gtype \<Rightarrow> gval \<Rightarrow> gval \<times> outcome option" where
  "typeSwitch env val t field =
     (if bindU (info t) then (case UnmarshalParam env t val field of (y, r) \<Rightarrow> (y, Some r))
      else if textU (info t) then (case UnmarshalText env t val field of (y, r) \<Rightarrow> (y, Some r))
      else (field, None))"

definition unmarshalInputToField ::
    "env \<Rightarrow> kind \<Rightarrow> string \<Rightarrow> gtype \<Rightarrow> gval \<Rightarrow> gval \<times> outcome option" where
  "unmarshalInputToField env valueKind val t field =
     (if valueKind = Ptr then
        (case t of
           TPtr t' \<Rightarrow>
             (case field of
                VPtr p \<Rightarrow>
                  (case typeSwitch env val t' (case p of None \<Rightarrow> zero t' | Some y \<Rightarrow> y) of
                     (y, r) \<Rightarrow> (VPtr (Some y), r))
              | _ \<Rightarrow> (field, Some Panic))
         | _ \<Rightarrow> (field, Some Panic))
      else typeSwitch env val t field)"

text \<open>
  \<^verbatim>\<open>setWithProperType\<close>: the decoding methods first, then the switch on the kind. Under
  \<open>Ptr\<close> the pointee (allocated by \<open>unmarshalInputToField\<close> when it was nil) is set by
  its own kind.
\<close>

fun setWithProperType :: "env \<Rightarrow> kind \<Rightarrow> string \<Rightarrow> gtype \<Rightarrow> gval \<Rightarrow> gval \<times> outcome" where
  "setWithProperType env valueKind val t structField =
     (case unmarshalInputToField env valueKind val t structField of
        (x, Some r) \<Rightarrow> (x, r)
      | (x, None) \<Rightarrow>
          (case valueKind of
             Ptr \<Rightarrow>
               (case t of
                  TPtr t' \<Rightarrow>
                    (case x of
                       VPtr (Some y) \<Rightarrow>
                         (case setWithProperType env (Kind t') val t' y of
                            (y', r) \<Rightarrow> (VPtr (Some y'), r))
                     | _ \<Rightarrow> (x, Panic))
                | _ \<Rightarrow> (x, Panic))
           | Int' \<Rightarrow> setIntField val 0 x
           | Int8 \<Rightarrow> setIntField val 8 x
           | Int16 \<Rightarrow> setIntField val 16 x
           | Int32 \<Rightarrow> setIntField val 32 x
           | Int64 \<Rightarrow> setIntField val 64 x
           | Uint \<Rightarrow> setUintField val 0 x
           | Uint8 \<Rightarrow> setUintField val 8 x
           | Uint16 \<Rightarrow> setUintField val 16 x
           | Uint32 \<Rightarrow> setUintField val 32 x
           | Uint64 \<Rightarrow> setUintField val 64 x
           | Bool \<Rightarrow> setBoolField val x
           | Float32 \<Rightarrow> setFloatField env val 32 x
           | Float64 \<Rightarrow> setFloatField env val 64 x
           | String \<Rightarrow> (VString val, OK)
           | _ \<Rightarrow> (x, Err UnknownType)))"

section \<open>Uploaded files\<close>

abbreviation stringType :: gtype where
  "stringType \<equiv> TBasic (plain ''string'') String"

abbreviation int64Type :: gtype where
  "int64Type \<equiv> TBasic (plain ''int64'') Int64"

text \<open>
  \<^verbatim>\<open>multipart.FileHeader\<close> of the standard library: three exported and four unexported
  fields, none with a tag, and no decoding method.
\<close>

definition multipartFileHeaderType :: gtype where
  "multipartFileHeaderType =
     TStruct (plain ''multipart.FileHeader'')
       [Field ''Filename'' stringType False True [],
        Field ''Header''
          (TMap (plain ''textproto.MIMEHeader'') stringType (TSlice (plain []) stringType))
          False True [],
        Field ''Size'' int64Type False True [],
        Field ''content'' (TSlice (plain []) (TBasic (plain ''uint8'') Uint8)) False False [],
        Field ''tmpfile'' stringType False False [],
        Field ''tmpoff'' int64Type False False [],
        Field ''tmpshared'' (TBasic (plain ''bool'') Bool) False False []]"

definition multipartFileHeaderPointerType :: gtype where
  "multipartFileHeaderPointerType = TPtr multipartFileHeaderType"

definition multipartFileHeaderSliceType :: gtype where
  "multipartFileHeaderSliceType = TSlice (plain []) multipartFileHeaderType"

definition multipartFileHeaderPointerSliceType :: gtype where
  "multipartFileHeaderPointerSliceType = TSlice (plain []) (TPtr multipartFileHeaderType)"

definition isFieldMultipartFile :: "gtype \<Rightarrow> bool \<times> error option" where
  "isFieldMultipartFile field =
     (if field = multipartFileHeaderPointerType \<or> field = multipartFileHeaderSliceType
         \<or> field = multipartFileHeaderPointerSliceType then (True, None)
      else if field = multipartFileHeaderType then (True, Some FileHeaderNotSupported)
      else (False, None))"

text \<open>
  \<^verbatim>\<open>setMultipartFileHeaderTypes\<close>: the new value of the field when the function returns
  true, \<open>None\<close> when it returns false and leaves the field as it is.
\<close>

definition setMultipartFileHeaderTypes :: "gtype \<Rightarrow> string \<Rightarrow> fileHeaders \<Rightarrow> gval option" where
  "setMultipartFileHeaderTypes t inputFieldName files =
     (let fileHeaders = (case map_of files inputFieldName of None \<Rightarrow> [] | Some hs \<Rightarrow> hs) in
      if length fileHeaders = 0 then None
      else if t = multipartFileHeaderPointerSliceType then
        Some (VSlice (map (\<lambda>h. VPtr (Some h)) fileHeaders))
      else if t = multipartFileHeaderSliceType then Some (VSlice fileHeaders)
      else if t = multipartFileHeaderPointerType then Some (VPtr (Some (hd fileHeaders)))
      else None)"

section \<open>The field walker\<close>

text \<open>
  Lines 285 to 305 of \<^verbatim>\<open>bindData\<close>: the values under the external name, by the exact key
  first, else under the first key in iteration order that \<^verbatim>\<open>strings.EqualFold\<close> accepts.
\<close>

definition lookupInput :: "env \<Rightarrow> Values \<Rightarrow> string \<Rightarrow> string list option" where
  "lookupInput env data inputFieldName =
     (case map_of data inputFieldName of
        Some v \<Rightarrow> Some v
      | None \<Rightarrow>
          (case find (\<lambda>(k, v). EqualFold env k inputFieldName) data of
             Some (k, v) \<Rightarrow> Some v
           | None \<Rightarrow> None))"

text \<open>
  Lines 357 to 364: the elements of the new slice, each set from the zero value of the
  element type, up to the first that fails.
\<close>

fun setSliceElems :: "env \<Rightarrow> kind \<Rightarrow> gtype \<Rightarrow> string list \<Rightarrow> gval list \<times> outcome" where
  "setSliceElems env sliceOf et [] = ([], OK)"
| "setSliceElems env sliceOf et (v # vs) =
     (case setWithProperType env sliceOf v et (zero et) of
        (y, OK) \<Rightarrow> (case setSliceElems env sliceOf et vs of (ys, r) \<Rightarrow> (y # ys, r))
      | (y, r) \<Rightarrow> ([y], r))"

text \<open>
  Lines 352 to 375, for a field that is no longer a pointer: a slice is built whole and
  assigned only when every element was set; any other kind is set from the first value.
\<close>

definition bindSliceOrSingle :: "env \<Rightarrow> string list \<Rightarrow> gtype \<Rightarrow> gval \<Rightarrow> gval \<times> outcome" where
  "bindSliceOrSingle env inputValue t structField =
     (if Kind t = Slice then
        (case t of
           TSlice ti et \<Rightarrow>
             (case setSliceElems env (Kind et) et inputValue of
                (ys, OK) \<Rightarrow> (VSlice ys, OK)
              | (ys, r) \<Rightarrow> (structField, r))
         | _ \<Rightarrow> (structField, Panic))
      else
        (case inputValue of
           [] \<Rightarrow> (structField, Panic)
         | v # vs \<Rightarrow> setWithProperType env (Kind t) v t structField))"

text \<open>
  Lines 314 to 375: the values found under the external name are given to the field.
  \<open>declaredKind\<close> is \<^verbatim>\<open>typeField.Type.Kind()\<close>, \<open>t\<close> the type of \<^verbatim>\<open>structField\<close>.
  \<^verbatim>\<open>UnmarshalParams\<close> comes first, then \<^verbatim>\<open>UnmarshalParam\<close> or \<^verbatim>\<open>UnmarshalText\<close> on the
  first value, then one pointer is followed, then the slice or the single value is set.
  Indexing an empty list of values panics.
\<close>

definition bindInput :: "env \<Rightarrow> kind \<Rightarrow> string list \<Rightarrow> gtype \<Rightarrow> gval \<Rightarrow> gval \<times> outcome" where
  "bindInput env declaredKind inputValue t structField =
     (case unmarshalInputsToField env declaredKind inputValue t structField of
        (x1, Some r) \<Rightarrow> (x1, r)
      | (x1, None) \<Rightarrow>
          (case inputValue of
             [] \<Rightarrow> (x1, Panic)
           | v # vs \<Rightarrow>
               (case unmarshalInputToField env declaredKind v t x1 of
                  (x2, Some r) \<Rightarrow> (x2, r)
                | (x2, None) \<Rightarrow>
                    (if Kind t = Ptr then
                       (case t of
                          TPtr t' \<Rightarrow>
                            (case x2 of
                               VPtr (Some y) \<Rightarrow>
                                 (case bindSliceOrSingle env inputValue t' y of
                                    (y', r) \<Rightarrow> (VPtr (Some y'), r))
                             | _ \<Rightarrow> (x2, Panic))
                        | _ \<Rightarrow> (x2, Panic))
                     else bindSliceOrSingle env inputValue t x2))))"

text \<open>
  Lines 265 to 312: a settable field with a non-empty external name. With uploaded files
  in the request a field of a file type is set from them, and a bare
  \<^verbatim>\<open>multipart.FileHeader\<close> is an error; when no file was set the name is looked up in the
  data, and a field whose name is not found is left as it is.
\<close>

definition bindTagged ::
    "env \<Rightarrow> Values \<Rightarrow> fileHeaders \<Rightarrow> kind \<Rightarrow> string \<Rightarrow> gtype \<Rightarrow> gval \<Rightarrow> gval \<times> outcome" where
  "bindTagged env data dataFiles declaredKind inputFieldName t structField =
     (let fromFiles =
        (if length dataFiles > 0 then
           (case isFieldMultipartFile t of
              (ok, Some err) \<Rightarrow> Some (structField, Err err)
            | (True, None) \<Rightarrow>
                (case setMultipartFileHeaderTypes t inputFieldName dataFiles of
                   Some x \<Rightarrow> Some (x, OK)
                 | None \<Rightarrow> None)
            | (False, None) \<Rightarrow> None)
         else None)
      in
      case fromFiles of
        Some res \<Rightarrow> res
      | None \<Rightarrow>
          (case lookupInput env data inputFieldName of
             None \<Rightarrow> (structField, OK)
           | Some inputValue \<Rightarrow> bindInput env declaredKind inputValue t structField))"

text \<open>
  Lines 167 to 201: the destination is a map with string keys. A map of another element
  type is left alone; a nil map is made; every key of the data is stored, with its first
  value or, in a map of string slices, with all of them. Whether the key and element types
  accept a \<^verbatim>\<open>string\<close> (\<^verbatim>\<open>SetMapIndex\<close> panics when they do not) is not modelled.
\<close>

fun setMapIndex :: "string \<Rightarrow> 'v \<Rightarrow> (string \<times> 'v) list \<Rightarrow> (string \<times> 'v) list" where
  "setMapIndex k v [] = [(k, v)]"
| "setMapIndex k v ((k', v') # m) = (if k = k' then (k, v) # m else (k', v') # setMapIndex k v m)"

fun bindMapEntries :: "kind \<Rightarrow> Values \<Rightarrow> (string \<times> gval) list \<Rightarrow> (string \<times> gval) list \<times> outcome" where
  "bindMapEntries k [] m = (m, OK)"
| "bindMapEntries k ((key, v) # data) m =
     (if k = String then
        (case v of [] \<Rightarrow> (m, Panic)
         | v0 # vs \<Rightarrow> bindMapEntries k data (setMapIndex key (VString v0) m))
      else if k = Interface then
        (case v of [] \<Rightarrow> (m, Panic)
         | v0 # vs \<Rightarrow> bindMapEntries k data (setMapIndex key (VIface (Some (VString v0))) m))
      else bindMapEntries k data (setMapIndex key (VSlice (map VString v)) m))"

definition bindMap :: "gtype \<Rightarrow> gval option \<Rightarrow> Values \<Rightarrow> gval option \<times> outcome" where
  "bindMap typ val data =
     (case typ of
        TMap ti kt et \<Rightarrow>
          (let k = Kind et;
               isElemInterface = (k = Interface);
               isElemString = (k = String);
               isElemSliceOfStrings = (case et of TSlice ti' e \<Rightarrow> Kind e = String | _ \<Rightarrow> False)
           in if \<not> (isElemSliceOfStrings \<or> isElemString \<or> isElemInterface) then (val, OK)
              else
                (case val of
                   Some (VMap m) \<Rightarrow>
                     (case bindMapEntries k data (case m of None \<Rightarrow> [] | Some es \<Rightarrow> es) of
                        (es, r) \<Rightarrow> (Some (VMap (Some es)), r))
                 | _ \<Rightarrow> (val, Panic)))
      | _ \<Rightarrow> (val, Panic))"

definition isStringMap :: "gtype \<Rightarrow> bool" where
  "isStringMap typ = (case typ of TMap ti kt et \<Rightarrow> Kind kt = String | _ \<Rightarrow> False)"

text \<open>The walk descends into the types of the fields: the measure of its termination.\<close>

definition destSize :: "destination \<Rightarrow> nat" where
  "destSize d = (case d of Pointer t v \<Rightarrow> size t | _ \<Rightarrow> 0)"

lemma size_ftype: "size (ftype f) < size f"
  by (cases f) simp

lemma size_ftype4: "Suc (Suc (4 * size (ftype f))) < 4 * size f"
  using size_ftype [of f] by simp

lemma size_ftype_ptr: "ftype f = TPtr t \<Longrightarrow> Suc (Suc (4 * size t)) < 4 * size f"
  using size_ftype [of f] by simp

text \<open>
  \<^verbatim>\<open>bindData\<close>. \<open>bindFields\<close> is its loop over the fields (lines 217 to 377), with the
  values of the fields not yet visited; \<open>bindField\<close> is the head of the loop body (lines
  219 to 237: the embedded pointer is followed, a field that cannot be set is skipped) and
  \<open>bindValue\<close> the rest of it, on the type and value of \<^verbatim>\<open>structField\<close>. A field without
  an external name is walked by \<open>bindData\<close> itself when it is a struct without
  \<^verbatim>\<open>UnmarshalParam\<close>. An error or a panic ends the loop with the later fields as they
  were. A struct value has one value for each field of its type; \<^verbatim>\<open>val.Field(i)\<close> on
  anything else panics. The assignments to \<^verbatim>\<open>bindDataCoverage\<close> record which branch ran
  and change nothing else; they are left out.
\<close>

function bindData :: "env \<Rightarrow> destination \<Rightarrow> Values \<Rightarrow> string \<Rightarrow> fileHeaders \<Rightarrow> destination \<times> outcome"
and bindFields :: "env \<Rightarrow> Values \<Rightarrow> string \<Rightarrow> fileHeaders \<Rightarrow> sfield list \<Rightarrow> gval list \<Rightarrow> gval list \<times> outcome"
and bindField :: "env \<Rightarrow> Values \<Rightarrow> string \<Rightarrow> fileHeaders \<Rightarrow> sfield \<Rightarrow> gval \<Rightarrow> gval \<times> outcome"
and bindValue :: "env \<Rightarrow> Values \<Rightarrow> string \<Rightarrow> fileHeaders \<Rightarrow> sfield \<Rightarrow> gtype \<Rightarrow> gval \<Rightarrow> gval \<times> outcome"
where
  "bindData env destination data tag dataFiles =
     (if destination = NilDestination \<or> (length data = 0 \<and> length dataFiles = 0) then (destination, OK)
      else
        case destination of
          NilDestination \<Rightarrow> (destination, OK)
        | NonPointer \<Rightarrow> (destination, Panic)
        | Pointer typ val \<Rightarrow>
            if isStringMap typ then
              (case bindMap typ val data of (val', r) \<Rightarrow> (Pointer typ val', r))
            else if Kind typ \<noteq> Struct then
              (if tag = ''param'' \<or> tag = ''query'' \<or> tag = ''header'' then (destination, OK)
               else (destination, Err BindingElementMustBeStruct))
            else
              (case typ of
                 TStruct ti fs \<Rightarrow>
                   (case val of
                      Some (VStruct vs) \<Rightarrow>
                        (case bindFields env data tag dataFiles fs vs of
                           (vs', r) \<Rightarrow> (Pointer typ (Some (VStruct vs')), r))
                    | None \<Rightarrow> if fs = [] then (destination, OK) else (destination, Panic)
                    | _ \<Rightarrow> (destination, Panic))
               | _ \<Rightarrow> (destination, Panic)))"
| "bindFields env data tag dataFiles [] vs = (vs, OK)"
| "bindFields env data tag dataFiles (typeField # fs) [] = ([], Panic)"
| "bindFields env data tag dataFiles (typeField # fs) (v # vs) =
     (case bindField env data tag dataFiles typeField v of
        (v', OK) \<Rightarrow> (case bindFields env data tag dataFiles fs vs of (vs', r) \<Rightarrow> (v' # vs', r))
      | (v', r) \<Rightarrow> (v' # vs, r))"
| "bindField env data tag dataFiles typeField v =
     (if anonymous typeField \<and> Kind (ftype typeField) = Ptr then
        (case ftype typeField of
           TPtr t \<Rightarrow>
             (case v of
                VPtr None \<Rightarrow> (v, OK)
              | VPtr (Some structField) \<Rightarrow>
                  (if exported typeField then
                     (case bindValue env data tag dataFiles typeField t structField of
                        (x, r) \<Rightarrow> (VPtr (Some x), r))
                   else (v, OK))
              | _ \<Rightarrow> (v, Panic))
         | _ \<Rightarrow> (v, Panic))
      else if exported typeField then bindValue env data tag dataFiles typeField (ftype typeField) v
      else (v, OK))"
| "bindValue env data tag dataFiles typeField t structField =
     (let structFieldKind = Kind t;
          inputFieldName = Get (tags typeField) tag
      in if anonymous typeField \<and> structFieldKind = Struct \<and> inputFieldName \<noteq> [] then
           (structField, Err AnonymousStructTag)
         else if inputFieldName = [] then
           (if \<not> bindU (info t) \<and> structFieldKind = Struct then
              (case bindData env (Pointer t (Some structField)) data tag dataFiles of
                 (Pointer typ (Some x), r) \<Rightarrow> (x, r)
               | (d, r) \<Rightarrow> (structField, r))
            else (structField, OK))
         else bindTagged env data dataFiles (Kind (ftype typeField)) inputFieldName t structField)"
  by pat_completeness auto
termination
  apply (relation "measure (\<lambda>x. case x of
      Inl (Inl (env, d, data, tag, files)) \<Rightarrow> 4 * destSize d + 1
    | Inl (Inr (env, data, tag, files, fs, vs)) \<Rightarrow> 4 * size_list size fs
    | Inr (Inl (env, data, tag, files, f, v)) \<Rightarrow> 4 * size f
    | Inr (Inr (env, data, tag, files, f, t, x)) \<Rightarrow> 4 * size t + 2)")
  apply (simp_all add: destSize_def size_ftype4 size_ftype_ptr)
  done

section \<open>Source extractors, body dispatch and the three phases\<close>

definition StatusBadRequest :: nat where
  "StatusBadRequest = 400"

text \<open>\<^verbatim>\<open>NewHTTPError(http.StatusBadRequest, err.Error()).SetInternal(err)\<close>, on an error.\<close>

definition badRequest :: "outcome \<Rightarrow> outcome" where
  "badRequest r = (case r of Err e \<Rightarrow> Err (HTTPError StatusBadRequest ErrorText (Some e)) | _ \<Rightarrow> r)"

text \<open>
  The loop of \<^verbatim>\<open>BindPathParams\<close>: one value per name, a later name replacing an equal
  earlier one; \<open>None\<close> when \<^verbatim>\<open>values[i]\<close> is out of range.
\<close>

fun pathParams :: "string list \<Rightarrow> string list \<Rightarrow> Values \<Rightarrow> Values option" where
  "pathParams [] vals params = Some params"
| "pathParams (name # names) [] params = None"
| "pathParams (name # names) (v # vals) params = pathParams names vals (setMapIndex name [v] params)"

definition BindPathParams :: "env \<Rightarrow> Context \<Rightarrow> destination \<Rightarrow> destination \<times> outcome" where
  "BindPathParams env c i =
     (case pathParams (ParamNames c) (ParamValues c) [] of
        None \<Rightarrow> (i, Panic)
      | Some params \<Rightarrow> (case bindData env i params ''param'' [] of (i', r) \<Rightarrow> (i', badRequest r)))"

definition BindQueryParams :: "env \<Rightarrow> Context \<Rightarrow> destination \<Rightarrow> destination \<times> outcome" where
  "BindQueryParams env c i =
     (case bindData env i (QueryParams c) ''query'' [] of (i', r) \<Rightarrow> (i', badRequest r))"

definition BindHeaders :: "env \<Rightarrow> Context \<Rightarrow> destination \<Rightarrow> destination \<times> outcome" where
  "BindHeaders env c i =
     (case bindData env i (Header c) ''header'' [] of (i', r) \<Rightarrow> (i', badRequest r))"

text \<open>
  \<^verbatim>\<open>Header.Get\<close>: the first value under the key, the empty string when there is none.
  The key is looked up as it is written (the name of the content type header is already
  in the canonical form that \<^verbatim>\<open>Get\<close> gives its argument).
\<close>

definition HeaderGet :: "Values \<Rightarrow> string \<Rightarrow> string" where
  "HeaderGet h key = (case map_of h key of Some (v # vs) \<Rightarrow> v | _ \<Rightarrow> [])"

text \<open>Lines 75 and 76 of \<^verbatim>\<open>BindBody\<close>: the content type without its parameters.\<close>

definition mediatype :: "env \<Rightarrow> Context \<Rightarrow> string" where
  "mediatype env c =
     (let base = Cut (HeaderGet (Header c) (HeaderContentType env)) CHR '';''
      in TrimSpace env base)"

definition BindBody :: "env \<Rightarrow> Context \<Rightarrow> destination \<Rightarrow> destination \<times> outcome" where
  "BindBody env c i =
     (if ContentLength c = 0 then (i, OK)
      else
        let mediatype = mediatype env c
        in if mediatype = MIMEApplicationJSON env then
             (case Deserialize env c i of
                (i', Err (HTTPError code m internal)) \<Rightarrow> (i', Err (HTTPError code m internal))
              | (i', r) \<Rightarrow> (i', badRequest r))
           else if mediatype = MIMEApplicationXML env \<or> mediatype = MIMETextXML env then
             (case XMLDecode env (Body c) i of
                (i', Err XMLUnsupportedTypeError) \<Rightarrow>
                  (i', Err (HTTPError StatusBadRequest UnsupportedTypeText (Some XMLUnsupportedTypeError)))
              | (i', Err XMLSyntaxError) \<Rightarrow>
                  (i', Err (HTTPError StatusBadRequest SyntaxText (Some XMLSyntaxError)))
              | (i', r) \<Rightarrow> (i', badRequest r))
           else if mediatype = MIMEApplicationForm env then
             (case FormParams c of
                Inl err \<Rightarrow> (i, badRequest (Err err))
              | Inr params \<Rightarrow>
                  (case bindData env i params ''form'' [] of (i', r) \<Rightarrow> (i', badRequest r)))
           else if mediatype = MIMEMultipartForm env then
             (case MultipartForm c of
                Inl err \<Rightarrow> (i, badRequest (Err err))
              | Inr (vals, files) \<Rightarrow>
                  (case bindData env i vals ''form'' files of (i', r) \<Rightarrow> (i', badRequest r)))
           else (i, Err (ErrUnsupportedMediaType env)))"

definition MethodGet :: string where "MethodGet = ''GET''"

definition MethodDelete :: string where "MethodDelete = ''DELETE''"

definition MethodHead :: string where "MethodHead = ''HEAD''"

definition Bind :: "env \<Rightarrow> destination \<Rightarrow> Context \<Rightarrow> destination \<times> outcome" where
  "Bind env i c =
     (case BindPathParams env c i of
        (i1, OK) \<Rightarrow>
          (if Method c = MethodGet \<or> Method c = MethodDelete \<or> Method c = MethodHead then
             (case BindQueryParams env c i1 of
                (i2, OK) \<Rightarrow> BindBody env c i2
              | (i2, r) \<Rightarrow> (i2, r))
           else BindBody env c i1)
      | (i1, r) \<Rightarrow> (i1, r))"

section \<open>Notions used in the statements\<close>

text \<open>The kinds that the switch of \<^verbatim>\<open>setWithProperType\<close> sets from a text.\<close>

definition primitive :: "kind \<Rightarrow> bool" where
  "primitive k =
     (k \<in> {Int', Int8, Int16, Int32, Int64, Uint, Uint8, Uint16, Uint32, Uint64,
            Bool, Float32, Float64, String})"

text \<open>
  The file step of lines 265 to 283 leaves the field to the lookup of its name: there are
  no uploaded files, or the field is not of a file type, or no file was uploaded under its
  name.
\<close>

definition filesLeaveField :: "fileHeaders \<Rightarrow> gtype \<Rightarrow> string \<Rightarrow> bool" where
  "filesLeaveField dataFiles t inputFieldName =
     (length dataFiles = 0 \<or> isFieldMultipartFile t = (False, None) \<or>
      (isFieldMultipartFile t = (True, None) \<and>
       setMultipartFileHeaderTypes t inputFieldName dataFiles = None))"



section \<open>A concrete environment, concrete destinations and requests\<close>

text \<open>
  An instance of the collaborators for the concrete requests below: destination types
  without decoding methods, ASCII text, the media types and the status 415 of echo v4, and
  a float parser that knows the two literals used.
\<close>

definition sampleEnv :: env where
  "sampleEnv =
     \<lparr> ParseFloat = (\<lambda>s bitSize.
           if s = ''0.0'' then (Finite 0, None)
           else if s = ''1.5'' then (Finite (3 / 2), None)
           else (Finite 0, Some ErrSyntax)),
       unicodeEqualFold = (\<lambda>s t. False),
       unicodeTrimSpace = (\<lambda>s. s),
       UnmarshalParams = (\<lambda>t vals x. (x, OK)),
       UnmarshalParam = (\<lambda>t val x. (x, OK)),
       UnmarshalText = (\<lambda>t val x. (x, OK)),
       Deserialize = (\<lambda>c i. (i, OK)),
       XMLDecode = (\<lambda>body i. (i, OK)),
       HeaderContentType = ''Content-Type'',
       MIMEApplicationJSON = ''application/json'',
       MIMEApplicationXML = ''application/xml'',
       MIMETextXML = ''text/xml'',
       MIMEApplicationForm = ''application/x-www-form-urlencoded'',
       MIMEMultipartForm = ''multipart/form-data'',
       ErrUnsupportedMediaType = HTTPError 415 StatusText None \<rparr>"

abbreviation intType :: gtype where
  "intType \<equiv> TBasic (plain ''int'') Int'"

text \<open>
  \<^verbatim>\<open>struct { Embedded `form:"e"`; File multipart.FileHeader `form:"file"` }\<close> with
  \<^verbatim>\<open>type Embedded struct { Name string `form:"name"` }\<close>: both shapes that the walk
  rejects.
\<close>

definition rejectedStruct :: gtype where
  "rejectedStruct =
     TStruct (plain ''Rejected'')
       [Field ''Embedded''
          (TStruct (plain ''Embedded'') [Field ''Name'' stringType False True [(''form'', ''name'')]])
          True True [(''form'', ''e'')],
        Field ''File'' multipartFileHeaderType False True [(''form'', ''file'')]]"

text \<open>A request without a body that declares a media type the binder does not know.\<close>

definition emptyTextRequest :: Context where
  "emptyTextRequest =
     \<lparr> ParamNames = [], ParamValues = [], QueryParams = [],
       FormParams = Inr [], MultipartForm = Inl (ExternalError ''request Content-Type isn't multipart/form-data''),
       Method = ''POST'', ContentLength = 0,
       Header = [(''Content-Type'', [''text/plain''])], Body = [] \<rparr>"

text \<open>
  The same request sent with \<^verbatim>\<open>Transfer-Encoding: chunked\<close>: the body is still empty,
  and the declared length is -1, which is how net/http reports a length that it does not
  know.
\<close>

definition chunkedTextRequest :: Context where
  "chunkedTextRequest = emptyTextRequest \<lparr> ContentLength := - 1 \<rparr>"

text \<open>A form request whose body \<^verbatim>\<open>&\<close> holds no pair.\<close>

definition emptyFormRequest :: Context where
  "emptyFormRequest =
     \<lparr> ParamNames = [], ParamValues = [], QueryParams = [],
       FormParams = Inr [], MultipartForm = Inl (ExternalError ''request Content-Type isn't multipart/form-data''),
       Method = ''POST'', ContentLength = 1,
       Header = [(''Content-Type'', [''application/x-www-form-urlencoded''])], Body = ''&'' \<rparr>"

text \<open>
  \<^verbatim>\<open>struct { ID int `query:"id"` }\<close>, and a request without a body whose URL ends in
  \<^verbatim>\<open>?id=7\<close>.
\<close>

definition queryStruct :: gtype where
  "queryStruct = TStruct (plain ''Filter'') [Field ''ID'' intType False True [(''query'', ''id'')]]"

definition queryRequest :: "string \<Rightarrow> Context" where
  "queryRequest method =
     \<lparr> ParamNames = [], ParamValues = [], QueryParams = [(''id'', [''7''])],
       FormParams = Inr [(''id'', [''7''])], MultipartForm = Inl (ExternalError ''request Content-Type isn't multipart/form-data''),
       Method = method, ContentLength = 0, Header = [], Body = [] \<rparr>"

text \<open>
  \<^verbatim>\<open>struct { Name string `header:"x-name"` }\<close>.
\<close>

definition nameField :: sfield where
  "nameField = Field ''Name'' stringType False True [(''header'', ''x-name'')]"

text \<open>
  \<^verbatim>\<open>struct { Ratio float64 `query:"ratio"` }\<close> and \<^verbatim>\<open>struct { Level int8 `query:"level"` }\<close>.
\<close>

definition ratioField :: sfield where
  "ratioField = Field ''Ratio'' (TBasic (plain ''float64'') Float64) False True [(''query'', ''ratio'')]"

definition levelField :: sfield where
  "levelField = Field ''Level'' (TBasic (plain ''int8'') Int8) False True [(''query'', ''level'')]"

text \<open>
  \<^verbatim>\<open>struct { IDs []int `query:"id"` }\<close>.
\<close>

definition idsField :: sfield where
  "idsField = Field ''IDs'' (TSlice (plain []) intType) False True [(''query'', ''id'')]"

text \<open>
  \<^verbatim>\<open>type Embedded struct { Name string `query:"name"` }\<close>, embedded with a tag of its
  own after an ordinary field, and embedded by pointer:
  \<^verbatim>\<open>struct { ID int `query:"id"`; Embedded `query:"e"` }\<close> and
  \<^verbatim>\<open>struct { *Embedded `query:"e"` }\<close>.
\<close>

definition embeddedType :: gtype where
  "embeddedType = TStruct (plain ''Embedded'') [Field ''Name'' stringType False True [(''query'', ''name'')]]"

definition idField :: sfield where
  "idField = Field ''ID'' intType False True [(''query'', ''id'')]"

definition embeddedField :: sfield where
  "embeddedField = Field ''Embedded'' embeddedType True True [(''query'', ''e'')]"

definition taggedEmbedding :: gtype where
  "taggedEmbedding = TStruct (plain ''Tagged'') [idField, embeddedField]"

definition taggedPointerEmbedding :: gtype where
  "taggedPointerEmbedding =
     TStruct (plain ''TaggedPointer'') [Field ''Embedded'' (TPtr embeddedType) True True [(''query'', ''e'')]]"

text \<open>
  An uploaded file \<^verbatim>\<open>a.png\<close> of three bytes, and the destination
  \<^verbatim>\<open>struct { Files []*multipart.FileHeader `form:"files"`; Doc multipart.FileHeader `form:"doc"` }\<close>.
\<close>

definition sampleFile :: gval where
  "sampleFile =
     VStruct [VString ''a.png'', VMap (Some []), VInt 3, VSlice [VUint 1, VUint 2, VUint 3],
              VString [], VInt 0, VBool False]"

definition filesField :: sfield where
  "filesField = Field ''Files'' multipartFileHeaderPointerSliceType False True [(''form'', ''files'')]"

definition docField :: sfield where
  "docField = Field ''Doc'' multipartFileHeaderType False True [(''form'', ''doc'')]"

definition uploadType :: gtype where
  "uploadType = TStruct (plain ''Upload'') [filesField, docField]"








section \<open>Properties of the walk and of the coercer\<close>

declare bindData.simps [simp del] bindField.simps [simp del] bindValue.simps [simp del]
  setWithProperType.simps [simp del]

text \<open>The definitions that a concrete run unfolds.\<close>

lemmas run_defs =
  plain_def isStringMap_def Get_def bindTagged_def bindInput_def lookupInput_def
  unmarshalInputsToField_def unmarshalInputToField_def typeSwitch_def typeSwitchMultiple_def
  bindSliceOrSingle_def setIntField_def setUintField_def setBoolField_def setFloatField_def
  ParseInt_def ParseUint_def ParseBool_def digit_def IntSize_def
  isFieldMultipartFile_def setMultipartFileHeaderTypes_def
  multipartFileHeaderType_def multipartFileHeaderPointerType_def
  multipartFileHeaderSliceType_def multipartFileHeaderPointerSliceType_def
  EqualFold_def isASCII_def lower_def TrimSpace_def isSpace_def Cut_def HeaderGet_def mediatype_def
  bindData.simps bindField.simps bindValue.simps setWithProperType.simps bindMap_def
  BindPathParams_def BindQueryParams_def BindBody_def Bind_def badRequest_def
  StatusBadRequest_def MethodGet_def MethodDelete_def MethodHead_def sampleEnv_def

text \<open>The loop never changes the number of field values.\<close>

lemma bindFields_length: "length (fst (bindFields env data tag files fs vs)) = length vs"
proof (induction fs arbitrary: vs)
  case Nil
  then show ?case by simp
next
  case (Cons f fs)
  show ?case
  proof (cases vs)
    case Nil
    then show ?thesis by simp
  next
    case (Cons v vs')
    obtain v' r where bf: "bindField env data tag files f v = (v', r)"
      by (cases "bindField env data tag files f v")
    obtain ws r' where bfs: "bindFields env data tag files fs vs' = (ws, r')"
      by (cases "bindFields env data tag files fs vs'")
    have "length ws = length vs'" using Cons.IH [of vs'] bfs by simp
    then show ?thesis using Cons bf bfs by (cases r) simp_all
  qed
qed

text \<open>
  The walk over a struct is the walk over its leading fields, followed, when that did not
  fail, by the walk over the others; after a failure the later values are as they were.
\<close>

lemma bindFields_append:
  "length vpre = length pre \<Longrightarrow>
   bindFields env data tag files (pre @ rest) (vpre @ vrest) =
     (case bindFields env data tag files pre vpre of
        (vpre', OK) \<Rightarrow>
          (case bindFields env data tag files rest vrest of (vrest', r) \<Rightarrow> (vpre' @ vrest', r))
      | (vpre', r) \<Rightarrow> (vpre' @ vrest, r))"
proof (induction pre arbitrary: vpre)
  case Nil
  then show ?case by (simp split: prod.splits)
next
  case (Cons f pre)
  then obtain v vpre0 where vp: "vpre = v # vpre0" and len: "length vpre0 = length pre"
    by (cases vpre) auto
  obtain v' r where bf: "bindField env data tag files f v = (v', r)"
    by (cases "bindField env data tag files f v")
  show ?case
  proof (cases r)
    case OK
    then show ?thesis using vp bf Cons.IH [OF len]
      by (simp split: prod.splits outcome.splits)
  next
    case (Err e)
    then show ?thesis using vp bf by simp
  next
    case Panic
    then show ?thesis using vp bf by simp
  qed
qed

text \<open>Past the guard of its first lines, \<open>bindData\<close> on a struct is the loop.\<close>

lemma bindData_struct:
  "data \<noteq> [] \<or> files \<noteq> [] \<Longrightarrow>
   bindData env (Pointer (TStruct ti fs) (Some (VStruct vs))) data tag files =
     (case bindFields env data tag files fs vs of
        (vs', r) \<Rightarrow> (Pointer (TStruct ti fs) (Some (VStruct vs')), r))"
  by (auto simp: bindData.simps isStringMap_def)

text \<open>
  How one step of the walk shows in the result of \<open>bindData\<close>: when the walk over the
  fields declared before a field succeeds, the struct gets what the step made of the field,
  and the walk either goes on with the fields declared after it or ends there.
\<close>

lemma bindData_field_step:
  assumes "data \<noteq> [] \<or> files \<noteq> []" and "length vpre = length pre"
    and "bindFields env data tag files pre vpre = (vpre', OK)"
  shows "bindData env (Pointer (TStruct ti (pre @ f # post)) (Some (VStruct (vpre @ v # vpost))))
             data tag files =
           (case bindField env data tag files f v of
              (v', OK) \<Rightarrow>
                (case bindFields env data tag files post vpost of
                   (vpost', r) \<Rightarrow>
                     (Pointer (TStruct ti (pre @ f # post)) (Some (VStruct (vpre' @ v' # vpost'))), r))
            | (v', r) \<Rightarrow>
                (Pointer (TStruct ti (pre @ f # post)) (Some (VStruct (vpre' @ v' # vpost))), r))"
  using bindData_struct [OF assms(1), of env ti "pre @ f # post" "vpre @ v # vpost" tag]
    bindFields_append [OF assms(2), of env data tag files "f # post" "v # vpost"] assms(3)
  by (auto split: prod.splits outcome.splits)

text \<open>An exported, named field with an external name goes to lines 265 to 375.\<close>

lemma bindField_tagged:
  "exported f \<Longrightarrow> \<not> anonymous f \<Longrightarrow> Get (tags f) tag \<noteq> [] \<Longrightarrow>
   bindField env data tag files f v =
     bindTagged env data files (Kind (ftype f)) (Get (tags f) tag) (ftype f) v"
  by (simp add: bindField.simps bindValue.simps)

text \<open>When the file step leaves the field, the lookup of the name decides.\<close>

lemma bindTagged_lookup:
  "filesLeaveField dataFiles t name \<Longrightarrow>
   bindTagged env data dataFiles dk name t x =
     (case lookupInput env data name of
        None \<Rightarrow> (x, OK)
      | Some inputValue \<Rightarrow> bindInput env dk inputValue t x)"
  by (auto simp: bindTagged_def filesLeaveField_def)

text \<open>The three outcomes of the lookup: the exact key, a key equal up to case, none.\<close>

lemma lookupInput_exact: "map_of data name = Some vals \<Longrightarrow> lookupInput env data name = Some vals"
  by (simp add: lookupInput_def)

lemma lookupInput_fold:
  assumes "map_of data name = None" and "(k, vals) \<in> set data" and "EqualFold env k name"
  shows "\<exists>k' vals'. (k', vals') \<in> set data \<and> EqualFold env k' name \<and>
           lookupInput env data name = Some vals'"
proof -
  have "find (\<lambda>(k, v). EqualFold env k name) data \<noteq> None"
    using assms(2,3) by (auto simp: find_None_iff)
  then obtain k' vals' where f: "find (\<lambda>(k, v). EqualFold env k name) data = Some (k', vals')"
    by (cases "find (\<lambda>(k, v). EqualFold env k name) data") auto
  then have "(k', vals') \<in> set data" "EqualFold env k' name"
    by (auto simp: find_Some_iff in_set_conv_nth)
  then show ?thesis using f assms(1) by (auto simp: lookupInput_def)
qed

lemma lookupInput_none:
  "map_of data name = None \<Longrightarrow> \<forall>(k, vals) \<in> set data. \<not> EqualFold env k name \<Longrightarrow>
   lookupInput env data name = None"
proof -
  assume exact: "map_of data name = None"
    and none: "\<forall>(k, vals) \<in> set data. \<not> EqualFold env k name"
  have "find (\<lambda>(k, v). EqualFold env k name) data = None"
    using none by (auto simp: find_None_iff)
  then show ?thesis using exact by (simp add: lookupInput_def)
qed

text \<open>A type of a primitive kind is no file type, and its field is set by the coercer.\<close>

lemma basic_not_file: "isFieldMultipartFile (TBasic ti k) = (False, None)"
  by (simp add: isFieldMultipartFile_def multipartFileHeaderType_def
      multipartFileHeaderPointerType_def multipartFileHeaderSliceType_def
      multipartFileHeaderPointerSliceType_def)

lemma bindInput_primitive:
  assumes "primitive k" and "\<not> multi ti" and "\<not> bindU ti" and "\<not> textU ti"
  shows "bindInput env k (s # rest) (TBasic ti k) x = setWithProperType env k s (TBasic ti k) x"
  using assms
  by (auto simp: primitive_def bindInput_def unmarshalInputsToField_def unmarshalInputToField_def
      typeSwitchMultiple_def typeSwitch_def bindSliceOrSingle_def)

lemma setWithProperType_empty:
  assumes "primitive k" and "\<not> bindU ti" and "\<not> textU ti"
    and "k = Float32 \<longrightarrow> ParseFloat env ''0.0'' 32 = (Finite 0, None)"
    and "k = Float64 \<longrightarrow> ParseFloat env ''0.0'' 64 = (Finite 0, None)"
  shows "setWithProperType env k [] (TBasic ti k) x = (zero (TBasic ti k), OK)"
  using assms
  by (auto simp: primitive_def setWithProperType.simps unmarshalInputToField_def typeSwitch_def
      setIntField_def setUintField_def setBoolField_def setFloatField_def
      ParseInt_def ParseUint_def ParseBool_def digit_def IntSize_def)

text \<open>An embedded field that is neither a pointer nor a struct is treated as a named one.\<close>

lemma bindField_tagged_kind:
  "exported f \<Longrightarrow> Kind (ftype f) \<noteq> Ptr \<Longrightarrow> Kind (ftype f) \<noteq> Struct \<Longrightarrow>
   Get (tags f) tag \<noteq> [] \<Longrightarrow>
   bindField env data tag files f v =
     bindTagged env data files (Kind (ftype f)) (Get (tags f) tag) (ftype f) v"
  by (simp add: bindField.simps bindValue.simps)

text \<open>A slice: all elements are set, or the first refusal ends the loop over the values.\<close>

lemma bindInput_slice:
  assumes "\<not> multi ti" and "\<not> bindU ti" and "\<not> textU ti" and "vals \<noteq> []"
  shows "bindInput env Slice vals (TSlice ti et) x =
     (case setSliceElems env (Kind et) et vals of
        (ys, OK) \<Rightarrow> (VSlice ys, OK)
      | (ys, r) \<Rightarrow> (x, r))"
  using assms
  by (cases vals)
    (simp_all add: bindInput_def unmarshalInputsToField_def unmarshalInputToField_def
      typeSwitchMultiple_def typeSwitch_def bindSliceOrSingle_def)

lemma setSliceElems_all:
  "list_all (\<lambda>s. snd (setWithProperType env k s et (zero et)) = OK) vals \<Longrightarrow>
   setSliceElems env k et vals =
     (map (\<lambda>s. fst (setWithProperType env k s et (zero et))) vals, OK)"
proof (induction vals)
  case Nil
  then show ?case by simp
next
  case (Cons s vals)
  then show ?case
    by (cases "setWithProperType env k s et (zero et)") simp
qed

lemma setSliceElems_fails:
  "\<not> list_all (\<lambda>s. snd (setWithProperType env k s et (zero et)) = OK) vals \<Longrightarrow>
   snd (setSliceElems env k et vals) \<noteq> OK \<and>
   (\<exists>s \<in> set vals. snd (setSliceElems env k et vals) = snd (setWithProperType env k s et (zero et)))"
proof (induction vals)
  case Nil
  then show ?case by simp
next
  case (Cons s vals)
  obtain y r where one: "setWithProperType env k s et (zero et) = (y, r)"
    by (cases "setWithProperType env k s et (zero et)")
  show ?case
  proof (cases r)
    case OK
    then have "\<not> list_all (\<lambda>s. snd (setWithProperType env k s et (zero et)) = OK) vals"
      using Cons.prems one by simp
    then show ?thesis using Cons.IH one OK
      by (cases "setSliceElems env k et vals") auto
  next
    case (Err e)
    then show ?thesis using one by simp
  next
    case Panic
    then show ?thesis using one by simp
  qed
qed

text \<open>The embedded struct with an external name of its own.\<close>

lemma bindField_anonymous_tagged:
  assumes "anonymous f" and "exported f" and "Get (tags f) tag \<noteq> []"
    and "Kind (ftype f) = Struct \<or> (\<exists>t x. ftype f = TPtr t \<and> Kind t = Struct \<and> v = VPtr (Some x))"
  shows "bindField env data tag files f v = (v, Err AnonymousStructTag)"
  using assms by (auto simp: bindField.simps bindValue.simps)


text \<open>\<open>bindData\<close> returns a struct destination with its type and its number of fields.\<close>

lemma bindData_struct_shape:
  "bindData env (Pointer (TStruct ti fs) (Some (VStruct vs))) data tag files = (i', r) \<Longrightarrow>
   \<exists>vs'. i' = Pointer (TStruct ti fs) (Some (VStruct vs')) \<and> length vs' = length vs"
proof (cases "data = [] \<and> files = []")
  case True
  assume "bindData env (Pointer (TStruct ti fs) (Some (VStruct vs))) data tag files = (i', r)"
  then show ?thesis using True by (auto simp: bindData.simps)
next
  case False
  assume a: "bindData env (Pointer (TStruct ti fs) (Some (VStruct vs))) data tag files = (i', r)"
  obtain ws r' where w: "bindFields env data tag files fs vs = (ws, r')"
    by (cases "bindFields env data tag files fs vs")
  have "length ws = length vs" using bindFields_length [of env data tag files fs vs] w by simp
  then show ?thesis using a False w bindData_struct [of data files env ti fs vs tag] by auto
qed









section \<open>The claims\<close>



text \<open>
  C2. For a request whose method is not GET, DELETE or HEAD, \<open>Bind\<close> is the path phase
  followed by the body phase: the query phase is not run, so the query parameters cannot
  change the result, whatever their keys (unless the injected deserializer reads them
  itself). For GET, DELETE and HEAD the query phase runs between the two.
\<close>

theorem Bind_query_phase:
  "(Method c \<noteq> MethodGet \<and> Method c \<noteq> MethodDelete \<and> Method c \<noteq> MethodHead \<longrightarrow>
      Bind env i c =
        (case BindPathParams env c i of
           (i1, OK) \<Rightarrow> BindBody env c i1
         | (i1, r) \<Rightarrow> (i1, r)) \<and>
      (Deserialize env (c\<lparr>QueryParams := q\<rparr>) = Deserialize env c \<longrightarrow>
         Bind env i (c\<lparr>QueryParams := q\<rparr>) = Bind env i c)) \<and>
   (Method c = MethodGet \<or> Method c = MethodDelete \<or> Method c = MethodHead \<longrightarrow>
      Bind env i c =
        (case BindPathParams env c i of
           (i1, OK) \<Rightarrow>
             (case BindQueryParams env c i1 of
                (i2, OK) \<Rightarrow> BindBody env c i2
              | (i2, r) \<Rightarrow> (i2, r))
         | (i1, r) \<Rightarrow> (i1, r)))"
proof -
  have path: "BindPathParams env (c\<lparr>QueryParams := q\<rparr>) = BindPathParams env c"
    by (rule ext) (simp add: BindPathParams_def)
  have body: "Deserialize env (c\<lparr>QueryParams := q\<rparr>) = Deserialize env c \<Longrightarrow>
      BindBody env (c\<lparr>QueryParams := q\<rparr>) = BindBody env c"
    by (rule ext) (simp add: BindBody_def mediatype_def Let_def)
  show ?thesis
  proof (intro conjI impI)
    assume "Method c \<noteq> MethodGet \<and> Method c \<noteq> MethodDelete \<and> Method c \<noteq> MethodHead"
    then show "Bind env i c =
        (case BindPathParams env c i of
           (i1, OK) \<Rightarrow> BindBody env c i1
         | (i1, r) \<Rightarrow> (i1, r))"
      by (simp add: Bind_def split: prod.splits outcome.splits)
  next
    assume "Method c \<noteq> MethodGet \<and> Method c \<noteq> MethodDelete \<and> Method c \<noteq> MethodHead"
      and "Deserialize env (c\<lparr>QueryParams := q\<rparr>) = Deserialize env c"
    then show "Bind env i (c\<lparr>QueryParams := q\<rparr>) = Bind env i c"
      using path body by (simp add: Bind_def split: prod.splits outcome.splits)
  next
    assume "Method c = MethodGet \<or> Method c = MethodDelete \<or> Method c = MethodHead"
    then show "Bind env i c =
        (case BindPathParams env c i of
           (i1, OK) \<Rightarrow>
             (case BindQueryParams env c i1 of
                (i2, OK) \<Rightarrow> BindBody env c i2
              | (i2, r) \<Rightarrow> (i2, r))
         | (i1, r) \<Rightarrow> (i1, r))"
      by (simp add: Bind_def split: prod.splits outcome.splits)
  qed
qed

theorem Bind_query_phase_witness:
  "Bind sampleEnv (Pointer queryStruct (Some (VStruct [VInt 0]))) (queryRequest ''POST'') =
     (Pointer queryStruct (Some (VStruct [VInt 0])), OK) \<and>
   Bind sampleEnv (Pointer queryStruct (Some (VStruct [VInt 0]))) (queryRequest ''GET'') =
     (Pointer queryStruct (Some (VStruct [VInt 7])), OK) \<and>
   Bind sampleEnv (Pointer queryStruct (Some (VStruct [VInt 0]))) (queryRequest ''DELETE'') =
     (Pointer queryStruct (Some (VStruct [VInt 7])), OK) \<and>
   Bind sampleEnv (Pointer queryStruct (Some (VStruct [VInt 0]))) (queryRequest ''HEAD'') =
     (Pointer queryStruct (Some (VStruct [VInt 7])), OK)"
proof -
  let ?i = "Pointer queryStruct (Some (VStruct [VInt 0]))"
  have run: "BindPathParams sampleEnv (queryRequest m) ?i = (?i, OK)"
      "BindBody sampleEnv (queryRequest m) d = (d, OK)"
      "BindQueryParams sampleEnv (queryRequest m) ?i = (Pointer queryStruct (Some (VStruct [VInt 7])), OK)"
    for m d
    by (simp_all add: queryRequest_def queryStruct_def run_defs)
  have verb: "Method (queryRequest m) = m" for m
    by (simp add: queryRequest_def)
  show ?thesis
    using Bind_query_phase [of "queryRequest ''POST''" sampleEnv ?i "[]"]
      Bind_query_phase [of "queryRequest ''GET''" sampleEnv ?i "[]"]
      Bind_query_phase [of "queryRequest ''DELETE''" sampleEnv ?i "[]"]
      Bind_query_phase [of "queryRequest ''HEAD''" sampleEnv ?i "[]"]
    by (simp add: run verb MethodGet_def MethodDelete_def MethodHead_def)
qed

text \<open>
  C3, as stated, fails in three ways. Without any data the walk does not start and the
  tagged embedded struct is accepted. With data, the field declared before the embedded
  one is bound (\<open>ID\<close> goes from 0 to 5) before the walk reaches the embedded field and
  fails. An embedded pointer that is nil cannot be set and is skipped without error.
\<close>

theorem tagged_embedded_struct_counterexample:
  "bindData sampleEnv (Pointer taggedEmbedding (Some (VStruct [VInt 0, VStruct [VString []]]))) [] ''query'' [] =
     (Pointer taggedEmbedding (Some (VStruct [VInt 0, VStruct [VString []]])), OK) \<and>
   bindData sampleEnv (Pointer taggedEmbedding (Some (VStruct [VInt 0, VStruct [VString []]])))
       [(''id'', [''5''])] ''query'' [] =
     (Pointer taggedEmbedding (Some (VStruct [VInt 5, VStruct [VString []]])), Err AnonymousStructTag) \<and>
   bindData sampleEnv (Pointer taggedPointerEmbedding (Some (VStruct [VPtr None])))
       [(''id'', [''5''])] ''query'' [] =
     (Pointer taggedPointerEmbedding (Some (VStruct [VPtr None])), OK)"
  by (simp add: taggedEmbedding_def taggedPointerEmbedding_def embeddedType_def idField_def
      embeddedField_def run_defs)

text \<open>
  C3, amended. In a struct destination, with sources that are not both empty, an exported
  anonymous field that is a struct, or a pointer that is not nil to a struct, and that
  carries an external name for the tag key makes \<open>bindData\<close> fail whatever keys the
  sources hold: with the error of the tagged anonymous struct when the walk over the
  fields declared before it succeeds, with their failure otherwise. The embedded field
  and every field declared after it are what they were; the fields declared before it
  are as the walk over them left them.
\<close>

theorem tagged_embedded_struct:
  assumes "data \<noteq> [] \<or> dataFiles \<noteq> []" and "length vpre = length pre"
    and "anonymous f" and "exported f" and "Get (tags f) tag \<noteq> []"
    and "Kind (ftype f) = Struct \<or> (\<exists>t x. ftype f = TPtr t \<and> Kind t = Struct \<and> v = VPtr (Some x))"
  shows "bindData env (Pointer (TStruct ti (pre @ f # post)) (Some (VStruct (vpre @ v # vpost))))
             data tag dataFiles =
           (case bindFields env data tag dataFiles pre vpre of
              (vpre', OK) \<Rightarrow>
                (Pointer (TStruct ti (pre @ f # post)) (Some (VStruct (vpre' @ v # vpost))),
                 Err AnonymousStructTag)
            | (vpre', r) \<Rightarrow>
                (Pointer (TStruct ti (pre @ f # post)) (Some (VStruct (vpre' @ v # vpost))), r)) \<and>
         snd (bindData env (Pointer (TStruct ti (pre @ f # post)) (Some (VStruct (vpre @ v # vpost))))
             data tag dataFiles) \<noteq> OK"
proof -
  have field: "bindField env data tag dataFiles f v = (v, Err AnonymousStructTag)"
    using assms(3-6) by (rule bindField_anonymous_tagged)
  have rest: "bindFields env data tag dataFiles (f # post) (v # vpost) = (v # vpost, Err AnonymousStructTag)"
    using field by simp
  have walk: "bindFields env data tag dataFiles (pre @ f # post) (vpre @ v # vpost) =
      (case bindFields env data tag dataFiles pre vpre of
         (vpre', OK) \<Rightarrow> (vpre' @ v # vpost, Err AnonymousStructTag)
       | (vpre', r) \<Rightarrow> (vpre' @ v # vpost, r))"
    using bindFields_append [OF assms(2), of env data tag dataFiles "f # post" "v # vpost"] rest
    by (simp split: prod.splits outcome.splits)
  show ?thesis
    using bindData_struct [OF assms(1), of env ti "pre @ f # post" "vpre @ v # vpost" tag] walk
    by (simp split: prod.splits outcome.splits)
qed

theorem tagged_embedded_struct_witness:
  "bindData sampleEnv (Pointer taggedEmbedding (Some (VStruct [VInt 0, VStruct [VString []]])))
       [(''id'', [''5'']), (''name'', [''x''])] ''query'' [] =
     (Pointer taggedEmbedding (Some (VStruct [VInt 5, VStruct [VString []]])), Err AnonymousStructTag) \<and>
   bindData sampleEnv (Pointer taggedEmbedding (Some (VStruct [VInt 0, VStruct [VString []]])))
       [(''id'', [''x''])] ''query'' [] =
     (Pointer taggedEmbedding (Some (VStruct [VInt 0, VStruct [VString []]])), Err (NumError ErrSyntax))"
proof -
  have f: "anonymous embeddedField" "exported embeddedField" "Get (tags embeddedField) ''query'' \<noteq> []"
      "Kind (ftype embeddedField) = Struct \<or>
        (\<exists>t x. ftype embeddedField = TPtr t \<and> Kind t = Struct \<and> VStruct [VString []] = VPtr (Some x))"
    by (simp_all add: embeddedField_def embeddedType_def Get_def)
  have len: "length [VInt 0] = length [idField]" by simp
  have pre: "bindFields sampleEnv [(''id'', [''5'']), (''name'', [''x''])] ''query'' [] [idField] [VInt 0] = ([VInt 5], OK)"
      "bindFields sampleEnv [(''id'', [''x''])] ''query'' [] [idField] [VInt 0] = ([VInt 0], Err (NumError ErrSyntax))"
    by (simp_all add: idField_def run_defs)
  have shape: "taggedEmbedding = TStruct (plain ''Tagged'') ([idField] @ embeddedField # [])"
    by (simp add: taggedEmbedding_def)
  show ?thesis
    using tagged_embedded_struct [OF _ len f, of "[(''id'', [''5'']), (''name'', [''x''])]" "[]" sampleEnv
        "plain ''Tagged''" "[]" "[]"]
      tagged_embedded_struct [OF _ len f, of "[(''id'', [''x''])]" "[]" sampleEnv
        "plain ''Tagged''" "[]" "[]"]
      pre
    by (simp add: shape)
qed

text \<open>
  C4. A settable field with an external name whose type is of a primitive kind (a signed
  or unsigned integer of any width, a boolean, a float, a string) and has no decoding
  method: the coercer turns the empty text into the zero value of the kind without error,
  so a key that is present with an empty first value sets the field to zero and the walk
  goes on, while an absent key leaves the field as it is. For the two float kinds the
  parser of the standard library is taken to read \<open>0.0\<close> as zero.
\<close>

theorem empty_value_is_zero:
  assumes "primitive k" and "\<not> multi ti" and "\<not> bindU ti" and "\<not> textU ti"
    and "k = Float32 \<longrightarrow> ParseFloat env ''0.0'' 32 = (Finite 0, None)"
    and "k = Float64 \<longrightarrow> ParseFloat env ''0.0'' 64 = (Finite 0, None)"
    and "ftype f = TBasic ti k" and "exported f"
    and "Get (tags f) tag = name" and "name \<noteq> []"
  shows "setWithProperType env k [] (TBasic ti k) x = (zero (TBasic ti k), OK) \<and>
         (lookupInput env data name = Some ([] # rest) \<longrightarrow>
            bindField env data tag dataFiles f v = (zero (TBasic ti k), OK)) \<and>
         (lookupInput env data name = None \<longrightarrow>
            bindField env data tag dataFiles f v = (v, OK))"
proof -
  have coerce: "setWithProperType env k [] (TBasic ti k) y = (zero (TBasic ti k), OK)" for y
    using assms(1,3-6) by (rule setWithProperType_empty)
  have "filesLeaveField dataFiles (ftype f) name"
    using assms(7) by (simp add: filesLeaveField_def basic_not_file)
  moreover have "k \<noteq> Ptr" "k \<noteq> Struct"
    using assms(1) by (auto simp: primitive_def)
  ultimately have step: "bindField env data tag dataFiles f v =
      (case lookupInput env data name of
         None \<Rightarrow> (v, OK)
       | Some inputValue \<Rightarrow> bindInput env k inputValue (TBasic ti k) v)"
    using assms(7-10) by (simp add: bindField_tagged_kind bindTagged_lookup)
  show ?thesis
    using coerce step bindInput_primitive [OF assms(1-4)] by simp
qed

theorem empty_value_is_zero_witness:
  "setWithProperType sampleEnv Float64 [] (TBasic (plain ''float64'') Float64) (VFloat (Finite (3 / 2))) =
     (VFloat (Finite 0), OK) \<and>
   bindField sampleEnv [(''ratio'', [''''])] ''query'' [] ratioField (VFloat (Finite (3 / 2))) =
     (VFloat (Finite 0), OK) \<and>
   bindField sampleEnv [(''other'', [''''])] ''query'' [] ratioField (VFloat (Finite (3 / 2))) =
     (VFloat (Finite (3 / 2)), OK) \<and>
   bindField sampleEnv [(''level'', ['''', ''9''])] ''query'' [] levelField (VInt 4) = (VInt 0, OK) \<and>
   bindField sampleEnv [] ''query'' [] levelField (VInt 4) = (VInt 4, OK) \<and>
   bindData sampleEnv (Pointer (TStruct (plain ''Gauge'') [ratioField, levelField])
       (Some (VStruct [VFloat (Finite (3 / 2)), VInt 4]))) [(''ratio'', [[]]), (''level'', [[]])] ''query'' [] =
     (Pointer (TStruct (plain ''Gauge'') [ratioField, levelField])
       (Some (VStruct [VFloat (Finite 0), VInt 0])), OK)"
proof -
  have whole: "bindData sampleEnv (Pointer (TStruct (plain ''Gauge'') [ratioField, levelField])
       (Some (VStruct [VFloat (Finite (3 / 2)), VInt 4]))) [(''ratio'', [[]]), (''level'', [[]])] ''query'' [] =
     (Pointer (TStruct (plain ''Gauge'') [ratioField, levelField])
       (Some (VStruct [VFloat (Finite 0), VInt 0])), OK)"
    by (simp add: ratioField_def levelField_def run_defs)
  have env: "ParseFloat sampleEnv ''0.0'' 32 = (Finite 0, None)" "ParseFloat sampleEnv ''0.0'' 64 = (Finite 0, None)"
    by (simp_all add: sampleEnv_def)
  have ratio: "primitive Float64" "\<not> multi (plain ''float64'')" "\<not> bindU (plain ''float64'')"
      "\<not> textU (plain ''float64'')"
      "ftype ratioField = TBasic (plain ''float64'') Float64" "exported ratioField"
      "Get (tags ratioField) ''query'' = ''ratio''" "''ratio'' \<noteq> []"
    by (simp_all add: primitive_def plain_def ratioField_def Get_def)
  have level: "primitive Int8" "\<not> multi (plain ''int8'')" "\<not> bindU (plain ''int8'')"
      "\<not> textU (plain ''int8'')"
      "ftype levelField = TBasic (plain ''int8'') Int8" "exported levelField"
      "Get (tags levelField) ''query'' = ''level''" "''level'' \<noteq> []"
    by (simp_all add: primitive_def plain_def levelField_def Get_def)
  have found: "lookupInput sampleEnv [(''ratio'', [''''])] ''ratio'' = Some ([] # [])"
      "lookupInput sampleEnv [(''other'', [''''])] ''ratio'' = None"
      "lookupInput sampleEnv [(''level'', ['''', ''9''])] ''level'' = Some ([] # [''9''])"
      "lookupInput sampleEnv [] ''level'' = None"
    by (simp_all add: run_defs)
  show ?thesis
    using empty_value_is_zero [OF ratio(1-4) _ _ ratio(5-8), of sampleEnv "VFloat (Finite (3 / 2))"
        "[(''ratio'', [''''])]" "[]" "[]" "VFloat (Finite (3 / 2))"]
      empty_value_is_zero [OF ratio(1-4) _ _ ratio(5-8), of sampleEnv "VFloat (Finite (3 / 2))"
        "[(''other'', [''''])]" "[]" "[]" "VFloat (Finite (3 / 2))"]
      empty_value_is_zero [OF level(1-4) _ _ level(5-8), of sampleEnv "VInt 4"
        "[(''level'', ['''', ''9''])]" "[''9'']" "[]" "VInt 4"]
      empty_value_is_zero [OF level(1-4) _ _ level(5-8), of sampleEnv "VInt 4"
        "[]" "[]" "[]" "VInt 4"]
      env found whole
    by simp
qed

text \<open>
  C5. A settable field of a slice type without decoding methods, bound from a key with
  \<open>n\<close> values (at least one): when every value is accepted for the element type, the
  field becomes a new slice with one element for each value, in the order of the values,
  each set on its own from the zero element by \<open>setWithProperType\<close>, so its length is
  \<open>n\<close>; when some value is refused, the step ends with what the coercion of a refused
  value returned, which is not success, and the field is what it was.
\<close>

theorem slice_binding:
  assumes "ftype f = TSlice ti et" and "\<not> multi ti" and "\<not> bindU ti" and "\<not> textU ti"
    and "exported f" and "Get (tags f) tag = name" and "name \<noteq> []"
    and "filesLeaveField dataFiles (ftype f) name"
    and "lookupInput env data name = Some vals" and "vals \<noteq> []"
  shows "(list_all (\<lambda>s. snd (setWithProperType env (Kind et) s et (zero et)) = OK) vals \<longrightarrow>
            bindField env data tag dataFiles f v =
              (VSlice (map (\<lambda>s. fst (setWithProperType env (Kind et) s et (zero et))) vals), OK)) \<and>
         (\<not> list_all (\<lambda>s. snd (setWithProperType env (Kind et) s et (zero et)) = OK) vals \<longrightarrow>
            fst (bindField env data tag dataFiles f v) = v \<and>
            snd (bindField env data tag dataFiles f v) \<noteq> OK \<and>
            (\<exists>s \<in> set vals. snd (bindField env data tag dataFiles f v) =
               snd (setWithProperType env (Kind et) s et (zero et))))"
proof -
  have "bindField env data tag dataFiles f v = bindInput env Slice vals (TSlice ti et) v"
    using assms(1,5-9) by (simp add: bindField_tagged_kind bindTagged_lookup)
  then have step: "bindField env data tag dataFiles f v =
      (case setSliceElems env (Kind et) et vals of
         (ys, OK) \<Rightarrow> (VSlice ys, OK)
       | (ys, r) \<Rightarrow> (v, r))"
    using assms(2-4,10) by (simp add: bindInput_slice)
  show ?thesis
  proof (intro conjI impI)
    assume "list_all (\<lambda>s. snd (setWithProperType env (Kind et) s et (zero et)) = OK) vals"
    then show "bindField env data tag dataFiles f v =
        (VSlice (map (\<lambda>s. fst (setWithProperType env (Kind et) s et (zero et))) vals), OK)"
      using step by (simp add: setSliceElems_all)
  next
    assume bad: "\<not> list_all (\<lambda>s. snd (setWithProperType env (Kind et) s et (zero et)) = OK) vals"
    obtain ys r where elems: "setSliceElems env (Kind et) et vals = (ys, r)"
      by (cases "setSliceElems env (Kind et) et vals")
    have r: "r \<noteq> OK" "\<exists>s \<in> set vals. r = snd (setWithProperType env (Kind et) s et (zero et))"
      using setSliceElems_fails [OF bad] elems by simp_all
    have res: "bindField env data tag dataFiles f v = (v, r)"
      using step elems r(1) by (cases r) simp_all
    show "fst (bindField env data tag dataFiles f v) = v" using res by simp
    show "snd (bindField env data tag dataFiles f v) \<noteq> OK" using res r(1) by simp
    show "\<exists>s \<in> set vals. snd (bindField env data tag dataFiles f v) =
        snd (setWithProperType env (Kind et) s et (zero et))"
      using res r(2) by simp
  qed
qed

theorem slice_binding_witness:
  "bindField sampleEnv [(''id'', [''3'', ''1'', ''2''])] ''query'' [] idsField (VSlice []) =
     (VSlice [VInt 3, VInt 1, VInt 2], OK) \<and>
   bindField sampleEnv [(''id'', [''3'', ''x'', ''2''])] ''query'' [] idsField (VSlice [VInt 8]) =
     (VSlice [VInt 8], Err (NumError ErrSyntax)) \<and>
   bindData sampleEnv (Pointer (TStruct (plain ''Listed'') [idsField]) (Some (VStruct [VSlice []])))
       [(''id'', [''3'', ''1'', ''2''])] ''query'' [] =
     (Pointer (TStruct (plain ''Listed'') [idsField]) (Some (VStruct [VSlice [VInt 3, VInt 1, VInt 2]])), OK)"
proof -
  have whole: "bindData sampleEnv (Pointer (TStruct (plain ''Listed'') [idsField]) (Some (VStruct [VSlice []])))
       [(''id'', [''3'', ''1'', ''2''])] ''query'' [] =
     (Pointer (TStruct (plain ''Listed'') [idsField]) (Some (VStruct [VSlice [VInt 3, VInt 1, VInt 2]])), OK)"
    by (simp add: idsField_def run_defs)
  have f: "ftype idsField = TSlice (plain []) intType" "\<not> multi (plain [])" "\<not> bindU (plain [])"
      "\<not> textU (plain [])" "exported idsField" "Get (tags idsField) ''query'' = ''id''" "''id'' \<noteq> []"
      "filesLeaveField [] (ftype idsField) ''id''"
    by (simp_all add: idsField_def plain_def Get_def filesLeaveField_def)
  have found: "lookupInput sampleEnv [(''id'', vals)] ''id'' = Some vals" for vals
    by (simp add: lookupInput_def)
  have elem: "setWithProperType sampleEnv Int' ''3'' intType (VInt 0) = (VInt 3, OK)"
      "setWithProperType sampleEnv Int' ''1'' intType (VInt 0) = (VInt 1, OK)"
      "setWithProperType sampleEnv Int' ''2'' intType (VInt 0) = (VInt 2, OK)"
      "setWithProperType sampleEnv Int' ''x'' intType (VInt 0) = (VInt 0, Err (NumError ErrSyntax))"
    by (simp_all add: setWithProperType.simps run_defs)
  have good: "bindField sampleEnv [(''id'', [''3'', ''1'', ''2''])] ''query'' [] idsField (VSlice []) =
      (VSlice [VInt 3, VInt 1, VInt 2], OK)"
    using slice_binding [OF f found [of "[''3'', ''1'', ''2'']"], of "VSlice []"] elem
    by simp
  have bad: "fst (bindField sampleEnv [(''id'', [''3'', ''x'', ''2''])] ''query'' [] idsField (VSlice [VInt 8])) = VSlice [VInt 8] \<and>
      snd (bindField sampleEnv [(''id'', [''3'', ''x'', ''2''])] ''query'' [] idsField (VSlice [VInt 8])) = Err (NumError ErrSyntax)"
    using slice_binding [OF f found [of "[''3'', ''x'', ''2'']"], of "VSlice [VInt 8]"] elem
    by auto
  show ?thesis using good bad whole by (simp add: prod_eq_iff)
qed

text \<open>
  C6. For a settable field with an external name that the file step leaves to the lookup:
  when the data holds the name as an exact key, the values under that key are the ones
  bound, whatever other keys there are; when it does not and some key equals the name up
  to case, the values bound are those of a key that equals the name up to case (so the
  key \<open>X-Name\<close> binds into a field tagged \<open>x-name\<close>); when no key matches either way
  the field is left as it is and the walk goes on without error.
\<close>

theorem name_resolution:
  assumes "exported f" and "\<not> anonymous f" and "Get (tags f) tag = name" and "name \<noteq> []"
    and "filesLeaveField dataFiles (ftype f) name"
  shows "(map_of data name = Some vals \<longrightarrow>
            bindField env data tag dataFiles f v = bindInput env (Kind (ftype f)) vals (ftype f) v) \<and>
         (map_of data name = None \<and> (k, vals) \<in> set data \<and> EqualFold env k name \<longrightarrow>
            (\<exists>k' vals'. (k', vals') \<in> set data \<and> EqualFold env k' name \<and>
               bindField env data tag dataFiles f v =
                 bindInput env (Kind (ftype f)) vals' (ftype f) v)) \<and>
         (map_of data name = None \<and> (\<forall>(k, vals) \<in> set data. \<not> EqualFold env k name) \<longrightarrow>
            bindField env data tag dataFiles f v = (v, OK))"
proof -
  have step: "bindField env data tag dataFiles f v =
      (case lookupInput env data name of
         None \<Rightarrow> (v, OK)
       | Some inputValue \<Rightarrow> bindInput env (Kind (ftype f)) inputValue (ftype f) v)"
    using assms by (simp add: bindField_tagged bindTagged_lookup)
  show ?thesis
  proof (intro conjI impI)
    assume "map_of data name = Some vals"
    then show "bindField env data tag dataFiles f v = bindInput env (Kind (ftype f)) vals (ftype f) v"
      using step by (simp add: lookupInput_exact)
  next
    assume "map_of data name = None \<and> (k, vals) \<in> set data \<and> EqualFold env k name"
    then obtain k' vals' where "(k', vals') \<in> set data" "EqualFold env k' name"
        "lookupInput env data name = Some vals'"
      using lookupInput_fold [of data name k vals env] by blast
    then show "\<exists>k' vals'. (k', vals') \<in> set data \<and> EqualFold env k' name \<and>
        bindField env data tag dataFiles f v = bindInput env (Kind (ftype f)) vals' (ftype f) v"
      using step by auto
  next
    assume "map_of data name = None \<and> (\<forall>(k, vals) \<in> set data. \<not> EqualFold env k name)"
    then show "bindField env data tag dataFiles f v = (v, OK)"
      using step lookupInput_none [of data name env] by simp
  qed
qed

theorem name_resolution_witness:
  "bindField sampleEnv [(''X-Name'', [''echo''])] ''header'' [] nameField (VString []) =
     (VString ''echo'', OK) \<and>
   bindField sampleEnv [(''X-Name'', [''echo'']), (''x-name'', [''exact''])] ''header'' [] nameField (VString []) =
     (VString ''exact'', OK) \<and>
   bindField sampleEnv [(''X-Other'', [''echo''])] ''header'' [] nameField (VString ''before'') =
     (VString ''before'', OK) \<and>
   bindData sampleEnv (Pointer (TStruct (plain ''Named'') [nameField]) (Some (VStruct [VString []])))
       [(''X-Name'', [''echo''])] ''header'' [] =
     (Pointer (TStruct (plain ''Named'') [nameField]) (Some (VStruct [VString ''echo''])), OK)"
proof -
  have whole: "bindData sampleEnv (Pointer (TStruct (plain ''Named'') [nameField]) (Some (VStruct [VString []])))
       [(''X-Name'', [''echo''])] ''header'' [] =
     (Pointer (TStruct (plain ''Named'') [nameField]) (Some (VStruct [VString ''echo''])), OK)"
    by (simp add: nameField_def run_defs)
  have f: "exported nameField" "\<not> anonymous nameField" "Get (tags nameField) ''header'' = ''x-name''"
      "''x-name'' \<noteq> []" "filesLeaveField [] (ftype nameField) ''x-name''"
    by (simp_all add: nameField_def Get_def filesLeaveField_def)
  have fold: "EqualFold sampleEnv ''X-Name'' ''x-name''" "\<not> EqualFold sampleEnv ''X-Other'' ''x-name''"
    by (simp_all add: run_defs)
  have input: "bindInput sampleEnv (Kind (ftype nameField)) [s] (ftype nameField) x = (VString s, OK)" for s x
    by (simp add: nameField_def run_defs)
  have "\<exists>k' vals'. (k', vals') \<in> set [(''X-Name'', [''echo''])] \<and> EqualFold sampleEnv k' ''x-name'' \<and>
      bindField sampleEnv [(''X-Name'', [''echo''])] ''header'' [] nameField (VString []) =
        bindInput sampleEnv (Kind (ftype nameField)) vals' (ftype nameField) (VString [])"
    using name_resolution [OF f, of "[(''X-Name'', [''echo''])]" "[''echo'']" sampleEnv "VString []" "''X-Name''"] fold
    by simp
  then have one: "bindField sampleEnv [(''X-Name'', [''echo''])] ''header'' [] nameField (VString []) =
      (VString ''echo'', OK)"
    using input by auto
  have two: "bindField sampleEnv [(''X-Name'', [''echo'']), (''x-name'', [''exact''])] ''header'' [] nameField (VString []) =
     (VString ''exact'', OK)"
    using name_resolution [OF f, of "[(''X-Name'', [''echo'']), (''x-name'', [''exact''])]" "[''exact'']" sampleEnv "VString []"] input
    by simp
  have three: "bindField sampleEnv [(''X-Other'', [''echo''])] ''header'' [] nameField (VString ''before'') =
     (VString ''before'', OK)"
    using name_resolution [OF f, of "[(''X-Other'', [''echo''])]" "[]" sampleEnv "VString ''before''"] fold
    by simp
  show ?thesis using one two three whole by simp
qed

text \<open>
  C7, as stated, fails: a file was uploaded, but under another name, and the form holds a
  text value under the name of the field (what a file input left empty becomes). The field
  of type \<^verbatim>\<open>[]*multipart.FileHeader\<close> gets no file, its name is then looked up in the
  values, and setting a file header from a text fails with "unknown type".
\<close>

theorem file_fields_counterexample:
  "map_of [(''avatar'', [sampleFile])] ''files'' = None \<and>
   bindData sampleEnv (Pointer uploadType (Some (zero uploadType)))
       [(''files'', [''''])] ''form'' [(''avatar'', [sampleFile])] =
     (Pointer uploadType (Some (zero uploadType)), Err UnknownType)"
  by (simp add: uploadType_def filesField_def docField_def run_defs)

text \<open>
  C7, amended. With uploaded files in the request, for a settable named field with an
  external name: a field of type \<^verbatim>\<open>[]*multipart.FileHeader\<close> with no file uploaded under
  its name and no value under its name either (exactly or up to case) is left as it is, so
  zero-length when it was, and the walk goes on without error; a field of the bare type
  \<^verbatim>\<open>multipart.FileHeader\<close> ends the walk with the error that the struct is not
  supported, whether the file was uploaded for it or for another field.
\<close>

theorem file_fields:
  assumes "dataFiles \<noteq> []" and "exported f" and "\<not> anonymous f"
    and "Get (tags f) tag = name" and "name \<noteq> []"
  shows "(ftype f = multipartFileHeaderPointerSliceType \<and>
          (map_of dataFiles name = None \<or> map_of dataFiles name = Some []) \<and>
          lookupInput env data name = None \<longrightarrow>
            bindField env data tag dataFiles f v = (v, OK)) \<and>
         (ftype f = multipartFileHeaderType \<longrightarrow>
            bindField env data tag dataFiles f v = (v, Err FileHeaderNotSupported))"
proof (intro conjI impI)
  assume a: "ftype f = multipartFileHeaderPointerSliceType \<and>
      (map_of dataFiles name = None \<or> map_of dataFiles name = Some []) \<and>
      lookupInput env data name = None"
  then have "setMultipartFileHeaderTypes (ftype f) name dataFiles = None"
    by (auto simp: setMultipartFileHeaderTypes_def)
  then have "filesLeaveField dataFiles (ftype f) name"
    using a by (simp add: filesLeaveField_def isFieldMultipartFile_def)
  then show "bindField env data tag dataFiles f v = (v, OK)"
    using assms a by (simp add: bindField_tagged bindTagged_lookup)
next
  assume "ftype f = multipartFileHeaderType"
  then have "isFieldMultipartFile (ftype f) = (True, Some FileHeaderNotSupported)"
    by (simp add: isFieldMultipartFile_def multipartFileHeaderType_def
        multipartFileHeaderPointerType_def multipartFileHeaderSliceType_def
        multipartFileHeaderPointerSliceType_def)
  then show "bindField env data tag dataFiles f v = (v, Err FileHeaderNotSupported)"
    using assms by (simp add: bindField_tagged bindTagged_def)
qed

theorem file_fields_witness:
  "bindField sampleEnv [(''title'', [''x''])] ''form'' [(''avatar'', [sampleFile])] filesField (VSlice []) =
     (VSlice [], OK) \<and>
   bindField sampleEnv [(''title'', [''x''])] ''form'' [(''doc'', [sampleFile])] docField
       (zero multipartFileHeaderType) =
     (zero multipartFileHeaderType, Err FileHeaderNotSupported) \<and>
   bindData sampleEnv (Pointer uploadType (Some (zero uploadType)))
       [(''title'', [''x''])] ''form'' [(''doc'', [sampleFile])] =
     (Pointer uploadType (Some (zero uploadType)), Err FileHeaderNotSupported)"
proof -
  have whole: "bindData sampleEnv (Pointer uploadType (Some (zero uploadType)))
       [(''title'', [''x''])] ''form'' [(''doc'', [sampleFile])] =
     (Pointer uploadType (Some (zero uploadType)), Err FileHeaderNotSupported)"
    by (simp add: uploadType_def filesField_def docField_def run_defs)
  have files: "exported filesField" "\<not> anonymous filesField" "Get (tags filesField) ''form'' = ''files''"
      "''files'' \<noteq> []" "ftype filesField = multipartFileHeaderPointerSliceType"
    by (simp_all add: filesField_def Get_def)
  have doc: "exported docField" "\<not> anonymous docField" "Get (tags docField) ''form'' = ''doc''"
      "''doc'' \<noteq> []" "ftype docField = multipartFileHeaderType"
    by (simp_all add: docField_def Get_def)
  have absent: "map_of [(''avatar'', [sampleFile])] ''files'' = None"
      "lookupInput sampleEnv [(''title'', [''x''])] ''files'' = None"
    by (simp_all add: run_defs)
  have present: "[(''avatar'', [sampleFile])] \<noteq> []" "[(''doc'', [sampleFile])] \<noteq> []"
    by simp_all
  show ?thesis
    using file_fields [OF present(1) files(1-4), of sampleEnv "[(''title'', [''x''])]" "VSlice []"]
      file_fields [OF present(2) doc(1-4), of sampleEnv "[(''title'', [''x''])]" "zero multipartFileHeaderType"]
      files(5) doc(5) absent whole
    by simp
qed

text \<open>
  C8, as stated, fails: \<open>BindBody\<close> tests the declared length of the body, not the body.
  A request whose body is empty and whose declared length is not zero (here -1, the length
  of a body sent in chunks) is dispatched on its content type, and a content type that the
  binder does not know is answered by the unsupported media type error.
\<close>

theorem BindBody_zero_length_counterexample:
  "Body chunkedTextRequest = [] \<and>
   ContentLength chunkedTextRequest = - 1 \<and>
   BindBody sampleEnv chunkedTextRequest (Pointer intType (Some (VInt 3))) =
     (Pointer intType (Some (VInt 3)), Err (HTTPError 415 StatusText None)) \<and>
   Bind sampleEnv (Pointer intType (Some (VInt 3))) chunkedTextRequest =
     (Pointer intType (Some (VInt 3)), Err (HTTPError 415 StatusText None))"
  by (simp add: chunkedTextRequest_def emptyTextRequest_def run_defs)

text \<open>
  C8, amended. A request whose declared body length is zero: \<open>BindBody\<close> returns
  success and the destination is what it was, whatever the declared content type, also one
  that would otherwise be answered by the unsupported media type error, and whatever the
  body holds.
\<close>

theorem BindBody_zero_length:
  "ContentLength c = 0 \<Longrightarrow>
   BindBody env c i = (i, OK) \<and> BindBody env (c \<lparr> Body := b \<rparr>) i = (i, OK)"
  by (simp add: BindBody_def)

theorem BindBody_zero_length_witness:
  "ContentLength emptyTextRequest = 0 \<and>
   BindBody sampleEnv emptyTextRequest (Pointer intType (Some (VInt 3))) =
     (Pointer intType (Some (VInt 3)), OK) \<and>
   BindBody sampleEnv (emptyTextRequest \<lparr>Body := ''hello''\<rparr>) (Pointer intType (Some (VInt 3))) =
     (Pointer intType (Some (VInt 3)), OK) \<and>
   BindBody sampleEnv (emptyTextRequest \<lparr>ContentLength := 5\<rparr>) (Pointer intType (Some (VInt 3))) =
     (Pointer intType (Some (VInt 3)), Err (HTTPError 415 StatusText None))"
proof -
  have zero_length: "ContentLength emptyTextRequest = 0"
    by (simp add: emptyTextRequest_def)
  have "BindBody sampleEnv (emptyTextRequest \<lparr>ContentLength := 5\<rparr>) (Pointer intType (Some (VInt 3))) =
     (Pointer intType (Some (VInt 3)), Err (HTTPError 415 StatusText None))"
    by (simp add: emptyTextRequest_def run_defs)
  then show ?thesis
    using zero_length
      BindBody_zero_length [OF zero_length, of sampleEnv "Pointer intType (Some (VInt 3))" "''hello''"]
    by simp
qed

text \<open>
  C9, as stated, fails: with an empty form the body phase returns success on a root that
  is neither a struct nor a map with string keys, because the guard of the first lines of
  \<open>bindData\<close> comes before the test of the root.
\<close>

theorem bindData_other_root_counterexample:
  "bindData sampleEnv (Pointer intType (Some (VInt 3))) [] ''form'' [] =
     (Pointer intType (Some (VInt 3)), OK) \<and>
   BindBody sampleEnv emptyFormRequest (Pointer intType (Some (VInt 3))) =
     (Pointer intType (Some (VInt 3)), OK)"
  by (simp add: emptyFormRequest_def run_defs)

text \<open>
  C9, amended. When the destination root is neither a struct nor a map with string keys,
  \<open>bindData\<close> under the tag key of the body phase (\<open>form\<close>) returns the error
  "binding element must be a struct" as soon as one of the two source maps is not empty,
  and success when both are empty; under the tag keys of the path, query and header phases
  it returns success. In every case the destination is what it was.
\<close>

theorem bindData_other_root:
  "\<not> isStringMap typ \<Longrightarrow> Kind typ \<noteq> Struct \<Longrightarrow>
   bindData env (Pointer typ val) data ''form'' dataFiles =
     (Pointer typ val, if data = [] \<and> dataFiles = [] then OK else Err BindingElementMustBeStruct) \<and>
   bindData env (Pointer typ val) data ''param'' dataFiles = (Pointer typ val, OK) \<and>
   bindData env (Pointer typ val) data ''query'' dataFiles = (Pointer typ val, OK) \<and>
   bindData env (Pointer typ val) data ''header'' dataFiles = (Pointer typ val, OK)"
  by (simp add: bindData.simps)

theorem bindData_other_root_witness:
  "\<not> isStringMap intType \<and> Kind intType \<noteq> Struct \<and>
   bindData sampleEnv (Pointer intType (Some (VInt 3))) [(''id'', [''5''])] ''form'' [] =
     (Pointer intType (Some (VInt 3)), Err BindingElementMustBeStruct) \<and>
   bindData sampleEnv (Pointer intType (Some (VInt 3))) [(''id'', [''5''])] ''param'' [] =
     (Pointer intType (Some (VInt 3)), OK) \<and>
   bindData sampleEnv (Pointer intType (Some (VInt 3))) [(''id'', [''5''])] ''query'' [] =
     (Pointer intType (Some (VInt 3)), OK) \<and>
   bindData sampleEnv (Pointer intType (Some (VInt 3))) [(''id'', [''5''])] ''header'' [] =
     (Pointer intType (Some (VInt 3)), OK)"
proof -
  have shape: "\<not> isStringMap intType" "Kind intType \<noteq> Struct"
    by (simp_all add: isStringMap_def)
  show ?thesis
    using shape bindData_other_root [OF shape, of sampleEnv "Some (VInt 3)" "[(''id'', [''5''])]" "[]"]
    by simp
qed

text \<open>
  C10. Whenever the value map and the file map are both empty, or the destination is nil,
  \<open>bindData\<close> returns success at once and the destination is exactly what it was,
  whatever its shape: no field is assigned and nothing is validated, neither the embedded
  field with a tag nor the bare file handle.
\<close>

theorem bindData_without_sources:
  "destination = NilDestination \<or> (data = [] \<and> dataFiles = []) \<Longrightarrow>
   bindData env destination data tag dataFiles = (destination, OK)"
  by (auto simp: bindData.simps)

theorem bindData_without_sources_witness:
  "([] = ([] :: Values) \<and> [] = ([] :: fileHeaders)) \<and>
   bindData sampleEnv (Pointer rejectedStruct (Some (zero rejectedStruct))) [] ''form'' [] =
     (Pointer rejectedStruct (Some (zero rejectedStruct)), OK)"
  using bindData_without_sources
    [of "Pointer rejectedStruct (Some (zero rejectedStruct))" "[]" "[]" sampleEnv "''form''"]
  by simp

end
